theory Spec2Isabelle
  imports Complex_Main "HOL-Library.Word"
begin

section \<open>Numbers, vectors and configuration\<close>

text \<open>
  The program is the two-player trail game of \<^verbatim>\<open>Moving.tsx\<close>. Its numbers are
  JavaScript numbers; the embedding reads them as real numbers, so rounding error,
  NaN and the infinities are outside the model. Pixel counts that the DOM delivers
  (window and canvas sizes) are natural numbers, loop counters over pixels are
  integers, and the bytes of the \<^verbatim>\<open>Uint8Array\<close> are 8-bit words.

  The fields \<^verbatim>\<open>x\<close> and \<^verbatim>\<open>y\<close> of \<^verbatim>\<open>Vector2D\<close> are named \<open>vx\<close> and \<open>vy\<close>
  here.
\<close>

record Vector2D =
  vx :: real
  vy :: real

text \<open>\<^verbatim>\<open>Math.round\<close>: the nearest integer, a tie going up.\<close>

definition js_round :: "real \<Rightarrow> int" where
  "js_round v = \<lfloor>v + 1 / 2\<rfloor>"

text \<open>The entries of \<^verbatim>\<open>CONFIG\<close> that the simulation reads.\<close>

definition DOT_radiusPixels :: real where
  "DOT_radiusPixels = 2"

definition PHYSICS_forwardSpeedPixelsPerSecond :: real where
  "PHYSICS_forwardSpeedPixelsPerSecond = 80"

definition PHYSICS_turnSpeedRadiansPerSecond :: real where
  "PHYSICS_turnSpeedRadiansPerSecond = pi / 2"

definition TRAIL_recentIgnoreFrameCount :: nat where
  "TRAIL_recentIgnoreFrameCount = 10"

definition TRAIL_extraIgnoreMarginPixels :: real where
  "TRAIL_extraIgnoreMarginPixels = 3 / 4"

definition GAPS_enabled :: bool where
  "GAPS_enabled = True"

definition GAPS_minIntervalSeconds :: real where
  "GAPS_minIntervalSeconds = 12 / 10"

definition GAPS_maxIntervalSeconds :: real where
  "GAPS_maxIntervalSeconds = 3"

definition GAPS_minDurationSeconds :: real where
  "GAPS_minDurationSeconds = 18 / 100"

definition GAPS_maxDurationSeconds :: real where
  "GAPS_maxDurationSeconds = 35 / 100"

definition GAPS_corridorExtraMarginPixels :: real where
  "GAPS_corridorExtraMarginPixels = 6 / 10"

definition GAPS_corridorMaxPoints :: nat where
  "GAPS_corridorMaxPoints = 600"

definition BORDER_thicknessPixels :: real where
  "BORDER_thicknessPixels = 4"

definition BORDER_insetPixels :: real where
  "BORDER_insetPixels = 4"

section \<open>The trail mask\<close>

record TrailMask =
  widthPixels :: nat
  heightPixels :: nat
  occupancy :: "8 word list"

text \<open>\<^verbatim>\<open>new Uint8Array(n)\<close> is \<open>n\<close> zero bytes.\<close>

definition createTrailMask :: "nat \<Rightarrow> nat \<Rightarrow> TrailMask" where
  "createTrailMask w h =
     \<lparr>widthPixels = w, heightPixels = h, occupancy = replicate (w * h) 0\<rparr>"

text \<open>
  Reading and writing the typed array at an integer index. A read outside the array
  is \<^verbatim>\<open>undefined\<close> (here \<open>None\<close>); a write outside the array is dropped.
\<close>

definition readOcc :: "8 word list \<Rightarrow> int \<Rightarrow> 8 word option" where
  "readOcc occ i = (if 0 \<le> i \<and> nat i < length occ then Some (occ ! nat i) else None)"

definition writeOcc :: "8 word list \<Rightarrow> int \<Rightarrow> 8 word list" where
  "writeOcc occ i = (if 0 \<le> i then occ[nat i := 1] else occ)"

text \<open>The inner loop of \<^verbatim>\<open>markVisitedCircle\<close>, over the columns still to visit.\<close>

fun markRow :: "real \<Rightarrow> real \<Rightarrow> real \<Rightarrow> int \<Rightarrow> int list \<Rightarrow> 8 word list \<Rightarrow> 8 word list" where
  "markRow centerX deltaYSquared radiusSquared rowOffset [] occ = occ"
| "markRow centerX deltaYSquared radiusSquared rowOffset (pixelX # rest) occ =
     (let deltaX = real_of_int pixelX - centerX;
          distanceSquared = deltaX * deltaX + deltaYSquared
      in markRow centerX deltaYSquared radiusSquared rowOffset rest
           (if distanceSquared \<le> radiusSquared then writeOcc occ (rowOffset + pixelX) else occ))"

text \<open>The outer loop, over the rows still to visit.\<close>

fun markRows :: "nat \<Rightarrow> real \<Rightarrow> real \<Rightarrow> real \<Rightarrow> int \<Rightarrow> int \<Rightarrow> int list \<Rightarrow> 8 word list \<Rightarrow> 8 word list" where
  "markRows w centerX centerY radiusSquared minX maxX [] occ = occ"
| "markRows w centerX centerY radiusSquared minX maxX (pixelY # rest) occ =
     (let deltaY = real_of_int pixelY - centerY;
          deltaYSquared = deltaY * deltaY;
          rowOffset = pixelY * int w
      in markRows w centerX centerY radiusSquared minX maxX rest
           (markRow centerX deltaYSquared radiusSquared rowOffset [minX..maxX] occ))"

definition markVisitedCircle :: "TrailMask \<Rightarrow> real \<Rightarrow> real \<Rightarrow> real \<Rightarrow> TrailMask" where
  "markVisitedCircle trailMask centerX centerY radiusPixels =
     (let minX = max 0 \<lfloor>centerX - radiusPixels\<rfloor>;
          maxX = min (int (widthPixels trailMask) - 1) \<lceil>centerX + radiusPixels\<rceil>;
          minY = max 0 \<lfloor>centerY - radiusPixels\<rfloor>;
          maxY = min (int (heightPixels trailMask) - 1) \<lceil>centerY + radiusPixels\<rceil>;
          radiusSquared = radiusPixels * radiusPixels
      in trailMask\<lparr>occupancy :=
           markRows (widthPixels trailMask) centerX centerY radiusSquared minX maxX
             [minY..maxY] (occupancy trailMask)\<rparr>)"

section \<open>Collision with the trail\<close>

text \<open>The loop over \<^verbatim>\<open>ignoredPoints\<close>, leaving at the first point that covers the pixel.\<close>

fun belongsToIgnored :: "int \<Rightarrow> int \<Rightarrow> real \<Rightarrow> Vector2D list \<Rightarrow> bool" where
  "belongsToIgnored pixelX pixelY ignoreRadiusSquared [] = False"
| "belongsToIgnored pixelX pixelY ignoreRadiusSquared (p # rest) =
     (let dx = real_of_int pixelX - vx p;
          dy = real_of_int pixelY - vy p
      in if dx * dx + dy * dy \<le> ignoreRadiusSquared then True
         else belongsToIgnored pixelX pixelY ignoreRadiusSquared rest)"

text \<open>
  One row of the scan: \<open>True\<close> is the \<^verbatim>\<open>return true\<close> inside the loops, \<open>False\<close> is a
  row that ends with no collision found.
\<close>

fun scanRow :: "8 word list \<Rightarrow> real \<Rightarrow> real \<Rightarrow> real \<Rightarrow> real \<Rightarrow> Vector2D list \<Rightarrow> int \<Rightarrow> int
    \<Rightarrow> int list \<Rightarrow> bool" where
  "scanRow occ centerX deltaYSquared radiusSquared ignoreRadiusSquared ignoredPoints pixelY
     rowOffset [] = False"
| "scanRow occ centerX deltaYSquared radiusSquared ignoreRadiusSquared ignoredPoints pixelY
     rowOffset (pixelX # rest) =
     (let deltaX = real_of_int pixelX - centerX;
          distanceSquared = deltaX * deltaX + deltaYSquared
      in if distanceSquared > radiusSquared
         then scanRow occ centerX deltaYSquared radiusSquared ignoreRadiusSquared ignoredPoints
                pixelY rowOffset rest
         else if readOcc occ (rowOffset + pixelX) = Some 1
              \<and> \<not> belongsToIgnored pixelX pixelY ignoreRadiusSquared ignoredPoints
         then True
         else scanRow occ centerX deltaYSquared radiusSquared ignoreRadiusSquared ignoredPoints
                pixelY rowOffset rest)"

fun scanRows :: "TrailMask \<Rightarrow> Vector2D \<Rightarrow> real \<Rightarrow> real \<Rightarrow> Vector2D list \<Rightarrow> int \<Rightarrow> int
    \<Rightarrow> int list \<Rightarrow> bool" where
  "scanRows trailMask center radiusSquared ignoreRadiusSquared ignoredPoints minX maxX [] = False"
| "scanRows trailMask center radiusSquared ignoreRadiusSquared ignoredPoints minX maxX
     (pixelY # rest) =
     (let deltaY = real_of_int pixelY - vy center;
          deltaYSquared = deltaY * deltaY;
          rowOffset = pixelY * int (widthPixels trailMask)
      in if scanRow (occupancy trailMask) (vx center) deltaYSquared radiusSquared
              ignoreRadiusSquared ignoredPoints pixelY rowOffset [minX..maxX]
         then True
         else scanRows trailMask center radiusSquared ignoreRadiusSquared ignoredPoints
                minX maxX rest)"

definition collidesWithTrailExcludingPoints ::
    "TrailMask \<Rightarrow> Vector2D \<Rightarrow> real \<Rightarrow> Vector2D list \<Rightarrow> real \<Rightarrow> bool" where
  "collidesWithTrailExcludingPoints trailMask center radiusPixels ignoredPoints
     extraIgnoreMarginPixels =
     (let minX = max 0 \<lfloor>vx center - radiusPixels\<rfloor>;
          maxX = min (int (widthPixels trailMask) - 1) \<lceil>vx center + radiusPixels\<rceil>;
          minY = max 0 \<lfloor>vy center - radiusPixels\<rfloor>;
          maxY = min (int (heightPixels trailMask) - 1) \<lceil>vy center + radiusPixels\<rceil>;
          radiusSquared = radiusPixels * radiusPixels;
          ignoreRadius = radiusPixels + extraIgnoreMarginPixels;
          ignoreRadiusSquared = ignoreRadius * ignoreRadius
      in scanRows trailMask center radiusSquared ignoreRadiusSquared ignoredPoints
           minX maxX [minY..maxY])"

text \<open>
  The cell of the grid at column \<open>pixelX\<close> and row \<open>pixelY\<close>, as both functions address
  it: \<^verbatim>\<open>occupancy[pixelY * widthPixels + pixelX]\<close>.
\<close>

definition cellAt :: "TrailMask \<Rightarrow> int \<Rightarrow> int \<Rightarrow> 8 word option" where
  "cellAt trailMask pixelX pixelY =
     readOcc (occupancy trailMask) (pixelY * int (widthPixels trailMask) + pixelX)"

text \<open>The clamped bounding box that both scans of a circle visit.\<close>

definition inClampedBox :: "TrailMask \<Rightarrow> real \<Rightarrow> real \<Rightarrow> real \<Rightarrow> int \<Rightarrow> int \<Rightarrow> bool" where
  "inClampedBox trailMask centerX centerY radiusPixels pixelX pixelY \<longleftrightarrow>
     max 0 \<lfloor>centerX - radiusPixels\<rfloor> \<le> pixelX
     \<and> pixelX \<le> min (int (widthPixels trailMask) - 1) \<lceil>centerX + radiusPixels\<rceil>
     \<and> max 0 \<lfloor>centerY - radiusPixels\<rfloor> \<le> pixelY
     \<and> pixelY \<le> min (int (heightPixels trailMask) - 1) \<lceil>centerY + radiusPixels\<rceil>"

definition distSq :: "real \<Rightarrow> real \<Rightarrow> int \<Rightarrow> int \<Rightarrow> real" where
  "distSq centerX centerY pixelX pixelY =
     (real_of_int pixelX - centerX) * (real_of_int pixelX - centerX)
     + (real_of_int pixelY - centerY) * (real_of_int pixelY - centerY)"

section \<open>The gap timer\<close>

record GapState =
  isActive :: bool
  timeUntilNextGap :: real
  remainingGapTime :: real

text \<open>
  \<^verbatim>\<open>Math.random()\<close> is a number \<open>u\<close> with \<open>0 \<le> u < 1\<close> that the environment
  chooses. Every function that calls it takes the numbers it would draw as arguments,
  in the order of the calls; a number whose call is not reached is not used.
\<close>

definition randomInRange :: "real \<Rightarrow> real \<Rightarrow> real \<Rightarrow> real" where
  "randomInRange lo hi u = lo + u * (hi - lo)"

definition initGapState :: "real \<Rightarrow> GapState" where
  "initGapState u =
     \<lparr>isActive = False,
      timeUntilNextGap = randomInRange GAPS_minIntervalSeconds GAPS_maxIntervalSeconds u,
      remainingGapTime = 0\<rparr>"

definition updateGap :: "GapState \<Rightarrow> real \<Rightarrow> real \<Rightarrow> GapState" where
  "updateGap g deltaTimeSeconds u =
     (if \<not> GAPS_enabled then g
      else if isActive g then
        (let g1 = g\<lparr>remainingGapTime := remainingGapTime g - deltaTimeSeconds\<rparr>
         in if remainingGapTime g1 \<le> 0
            then g1\<lparr>isActive := False,
                    timeUntilNextGap :=
                      randomInRange GAPS_minIntervalSeconds GAPS_maxIntervalSeconds u\<rparr>
            else g1)
      else
        (let g1 = g\<lparr>timeUntilNextGap := timeUntilNextGap g - deltaTimeSeconds\<rparr>
         in if timeUntilNextGap g1 \<le> 0
            then g1\<lparr>isActive := True,
                    remainingGapTime :=
                      randomInRange GAPS_minDurationSeconds GAPS_maxDurationSeconds u\<rparr>
            else g1))"

text \<open>
  A run of \<^verbatim>\<open>updateGap\<close> calls, one per tick, each with its delta time and the number
  \<^verbatim>\<open>Math.random()\<close> would give in that call.
\<close>

fun runGap :: "GapState \<Rightarrow> (real \<times> real) list \<Rightarrow> GapState" where
  "runGap g [] = g"
| "runGap g ((deltaTimeSeconds, u) # rest) = runGap (updateGap g deltaTimeSeconds u) rest"

section \<open>The border\<close>

definition hitsBorder :: "real \<Rightarrow> real \<Rightarrow> real \<Rightarrow> real \<Rightarrow> real \<Rightarrow> bool" where
  "hitsBorder px py width height radius =
     (let t = BORDER_thicknessPixels;
          inset = BORDER_insetPixels;
          minX = inset + t + radius;
          maxX = width - inset - t - radius;
          minY = inset + t + radius;
          maxY = height - inset - t - radius
      in px < minX \<or> px > maxX \<or> py < minY \<or> py > maxY)"

section \<open>Players and the round\<close>

datatype PlayerLabel = Player_1 | Player_2

record PlayerState =
  label :: PlayerLabel
  colorHex :: string
  angleRadians :: real
  positionPixels :: Vector2D
  recentPositions :: "Vector2D list"
  gapCorridor :: "Vector2D list"
  isAlive :: bool
  scoreSeconds :: real
  gap :: GapState
  lastRenderedPosition :: "Vector2D option"

text \<open>\<^verbatim>\<open>push\<close> appends; \<^verbatim>\<open>shift\<close> removes the first element.\<close>

definition pushRecent :: "PlayerState \<Rightarrow> Vector2D \<Rightarrow> PlayerState" where
  "pushRecent player point =
     (let pushed = recentPositions player @ [point]
      in player\<lparr>recentPositions :=
           (if length pushed > TRAIL_recentIgnoreFrameCount then tl pushed else pushed)\<rparr>)"

text \<open>\<^verbatim>\<open>splice(0, n)\<close> removes the first \<open>n\<close> elements.\<close>

definition pushGapCorridor :: "PlayerState \<Rightarrow> Vector2D \<Rightarrow> PlayerState" where
  "pushGapCorridor player point =
     (let pushed = gapCorridor player @ [point]
      in player\<lparr>gapCorridor :=
           (if length pushed > GAPS_corridorMaxPoints
            then drop (length pushed - GAPS_corridorMaxPoints) pushed else pushed)\<rparr>)"

text \<open>
  The variables of the component's effect closure that the simulation reads and
  writes. The canvas and the HUD are presentation and are not part of the state.
\<close>

record Round =
  isMoving :: bool
  hasRoundEnded :: bool
  trailMask :: TrailMask
  playerOne :: PlayerState
  playerTwo :: PlayerState
  pressedKeys :: "string set"
  lastTimestampMs :: real

text \<open>
  The state the effect sets up before its first \<^verbatim>\<open>resetRound\<close>: \<open>g1\<close> and \<open>g2\<close> are the
  numbers drawn by the two \<^verbatim>\<open>initGapState\<close> calls, \<open>now\<close> is \<^verbatim>\<open>performance.now()\<close>.
\<close>

definition initialRound :: "real \<Rightarrow> real \<Rightarrow> real \<Rightarrow> Round" where
  "initialRound g1 g2 now =
     \<lparr>isMoving = False,
      hasRoundEnded = False,
      trailMask = createTrailMask 1 1,
      playerOne =
        \<lparr>label = Player_1, colorHex = ''#66e3ff'', angleRadians = 0,
         positionPixels = \<lparr>vx = 0, vy = 0\<rparr>, recentPositions = [], gapCorridor = [],
         isAlive = True, scoreSeconds = 0, gap = initGapState g1,
         lastRenderedPosition = None\<rparr>,
      playerTwo =
        \<lparr>label = Player_2, colorHex = ''#ffd166'', angleRadians = 0,
         positionPixels = \<lparr>vx = 0, vy = 0\<rparr>, recentPositions = [], gapCorridor = [],
         isAlive = True, scoreSeconds = 0, gap = initGapState g2,
         lastRenderedPosition = None\<rparr>,
      pressedKeys = {},
      lastTimestampMs = now\<rparr>"

text \<open>
  \<^verbatim>\<open>resetRound\<close>. \<open>innerWidth\<close> and \<open>innerHeight\<close> are the window's size; \<open>u1x\<close>, \<open>u1y\<close>,
  \<open>u2x\<close>, \<open>u2y\<close> are the numbers drawn for the two spawn points and \<open>g1\<close>, \<open>g2\<close> those
  drawn by the two \<^verbatim>\<open>initGapState\<close> calls, in the order of the calls.
\<close>

definition resetRound ::
    "Round \<Rightarrow> nat \<Rightarrow> nat \<Rightarrow> real \<Rightarrow> real \<Rightarrow> real \<Rightarrow> real \<Rightarrow> real \<Rightarrow> real \<Rightarrow> Round" where
  "resetRound s innerWidth innerHeight u1x u1y u2x u2y g1 g2 =
     (let widthCssPixels = innerWidth;
          heightCssPixels = innerHeight;
          mask0 = createTrailMask widthCssPixels heightCssPixels;
          radius = DOT_radiusPixels;
          t = BORDER_thicknessPixels;
          inset = BORDER_insetPixels;
          minX = inset + t + radius;
          maxX = real widthCssPixels - inset - t - radius;
          minY = inset + t + radius;
          maxY = real heightCssPixels - inset - t - radius;
          pos1 = \<lparr>vx = minX + u1x * (maxX - minX), vy = minY + u1y * (maxY - minY)\<rparr>;
          pos2 = \<lparr>vx = minX + u2x * (maxX - minX), vy = minY + u2y * (maxY - minY)\<rparr>;
          p1 = (playerOne s)\<lparr>positionPixels := pos1, angleRadians := 0,
                 recentPositions := [], gapCorridor := [], isAlive := True,
                 scoreSeconds := 0, gap := initGapState g1, lastRenderedPosition := None\<rparr>;
          p2 = (playerTwo s)\<lparr>positionPixels := pos2, angleRadians := 0,
                 recentPositions := [], gapCorridor := [], isAlive := True,
                 scoreSeconds := 0, gap := initGapState g2, lastRenderedPosition := None\<rparr>;
          mask1 = markVisitedCircle mask0
                    (real_of_int (js_round (vx pos1))) (real_of_int (js_round (vy pos1))) radius;
          mask2 = markVisitedCircle mask1
                    (real_of_int (js_round (vx pos2))) (real_of_int (js_round (vy pos2))) radius;
          p1' = pushRecent p1
                  \<lparr>vx = real_of_int (js_round (vx pos1)), vy = real_of_int (js_round (vy pos1))\<rparr>;
          p2' = pushRecent p2
                  \<lparr>vx = real_of_int (js_round (vx pos2)), vy = real_of_int (js_round (vy pos2))\<rparr>
      in s\<lparr>isMoving := False, hasRoundEnded := False, trailMask := mask2,
            playerOne := p1', playerTwo := p2'\<rparr>)"

text \<open>
  \<^verbatim>\<open>handleKeyDown\<close>, on \<open>key\<close>, the lower-cased \<^verbatim>\<open>event.key\<close>. The restart key resets
  the round in every state, so the window's size and the numbers \<^verbatim>\<open>resetRound\<close> would
  draw are arguments here too.
\<close>

definition handleKeyDown ::
    "Round \<Rightarrow> string \<Rightarrow> nat \<Rightarrow> nat \<Rightarrow> real \<Rightarrow> real \<Rightarrow> real \<Rightarrow> real \<Rightarrow> real \<Rightarrow> real \<Rightarrow> Round" where
  "handleKeyDown s key innerWidth innerHeight u1x u1y u2x u2y g1 g2 =
     (if key = '' '' then
        (if hasRoundEnded s then s else s\<lparr>isMoving := \<not> isMoving s\<rparr>)
      else if key = ''r'' then resetRound s innerWidth innerHeight u1x u1y u2x u2y g1 g2
      else s\<lparr>pressedKeys := insert key (pressedKeys s)\<rparr>)"

text \<open>
  A sequence of pushes on one player's two buffers, in the order the program makes
  them, and the points each buffer was asked to take.
\<close>

datatype BufferOp = PushRecent Vector2D | PushGapCorridor Vector2D

fun applyOps :: "PlayerState \<Rightarrow> BufferOp list \<Rightarrow> PlayerState" where
  "applyOps player [] = player"
| "applyOps player (PushRecent point # rest) = applyOps (pushRecent player point) rest"
| "applyOps player (PushGapCorridor point # rest) = applyOps (pushGapCorridor player point) rest"

fun recentPushes :: "BufferOp list \<Rightarrow> Vector2D list" where
  "recentPushes [] = []"
| "recentPushes (PushRecent point # rest) = point # recentPushes rest"
| "recentPushes (PushGapCorridor point # rest) = recentPushes rest"

fun corridorPushes :: "BufferOp list \<Rightarrow> Vector2D list" where
  "corridorPushes [] = []"
| "corridorPushes (PushRecent point # rest) = corridorPushes rest"
| "corridorPushes (PushGapCorridor point # rest) = point # corridorPushes rest"

text \<open>The last \<open>n\<close> elements of a list, in their order.\<close>

definition keepLast :: "nat \<Rightarrow> 'a list \<Rightarrow> 'a list" where
  "keepLast n xs = drop (length xs - n) xs"

section \<open>One tick\<close>

text \<open>The two rotation statements of one player, left key first.\<close>

definition applyTurn :: "string set \<Rightarrow> string \<Rightarrow> string \<Rightarrow> real \<Rightarrow> PlayerState \<Rightarrow> PlayerState" where
  "applyTurn keys leftKey rightKey deltaTimeSeconds player =
     (let p = (if leftKey \<in> keys
               then player\<lparr>angleRadians :=
                      angleRadians player - PHYSICS_turnSpeedRadiansPerSecond * deltaTimeSeconds\<rparr>
               else player)
      in if rightKey \<in> keys
         then p\<lparr>angleRadians :=
                angleRadians p + PHYSICS_turnSpeedRadiansPerSecond * deltaTimeSeconds\<rparr>
         else p)"

definition advance :: "real \<Rightarrow> real \<Rightarrow> real \<times> real" where
  "advance deltaTimeSeconds angle =
     (cos angle * PHYSICS_forwardSpeedPixelsPerSecond * deltaTimeSeconds,
      sin angle * PHYSICS_forwardSpeedPixelsPerSecond * deltaTimeSeconds)"

text \<open>The candidate position \<^verbatim>\<open>(nextX, nextY)\<close> of a player in a tick.\<close>

definition candidate :: "real \<Rightarrow> PlayerState \<Rightarrow> Vector2D" where
  "candidate deltaTimeSeconds player =
     (let a = advance deltaTimeSeconds (angleRadians player)
      in \<lparr>vx = vx (positionPixels player) + fst a, vy = vy (positionPixels player) + snd a\<rparr>)"

text \<open>
  The block \<^verbatim>\<open>if (player.isAlive) { ... }\<close> of the tick. The source writes it out once
  for each player, the second copy with the two players exchanged; \<open>me\<close> is the player
  the block moves and \<open>otherCorridor\<close> is the other player's \<^verbatim>\<open>gapCorridor\<close> at that
  moment. \<open>trail\<close> is the closure's \<^verbatim>\<open>trailMask\<close>. The result is the mask and the player after
  the block.
\<close>

definition resolvePlayer ::
    "real \<Rightarrow> real \<Rightarrow> real \<Rightarrow> TrailMask \<Rightarrow> PlayerState \<Rightarrow> Vector2D list \<Rightarrow> TrailMask \<times> PlayerState" where
  "resolvePlayer deltaTimeSeconds w h trail me otherCorridor =
     (if isAlive me then
        (let radius = DOT_radiusPixels;
             nextX = vx (candidate deltaTimeSeconds me);
             nextY = vy (candidate deltaTimeSeconds me)
         in if hitsBorder nextX nextY w h radius then (trail, me\<lparr>isAlive := False\<rparr>)
            else
              (let ignorePoints = recentPositions me @ gapCorridor me @ otherCorridor;
                   rounded = \<lparr>vx = real_of_int (js_round nextX),
                              vy = real_of_int (js_round nextY)\<rparr>;
                   collides = collidesWithTrailExcludingPoints trail rounded radius ignorePoints
                                (max TRAIL_extraIgnoreMarginPixels GAPS_corridorExtraMarginPixels)
               in if collides then (trail, me\<lparr>isAlive := False\<rparr>)
                  else
                    (let moved = me\<lparr>positionPixels := \<lparr>vx = nextX, vy = nextY\<rparr>\<rparr>;
                         (trail', stamped) =
                           (if \<not> isActive (gap moved)
                            then (markVisitedCircle trail (vx rounded) (vy rounded) radius,
                                  pushRecent moved rounded)
                            else (trail, pushGapCorridor moved rounded))
                     in (trail', stamped\<lparr>scoreSeconds :=
                                  scoreSeconds stamped + deltaTimeSeconds\<rparr>))))
      else (trail, me))"

text \<open>
  The statements of \<^verbatim>\<open>step\<close>, in their order, each as a function on the round.
  First the four rotation statements, which run in every state.
\<close>

definition rotatePlayers :: "Round \<Rightarrow> real \<Rightarrow> Round" where
  "rotatePlayers s deltaTimeSeconds =
     s\<lparr>playerOne := applyTurn (pressedKeys s) ''a'' ''d'' deltaTimeSeconds (playerOne s),
       playerTwo := applyTurn (pressedKeys s) ''j'' ''k'' deltaTimeSeconds (playerTwo s)\<rparr>"

text \<open>
  The gap timers of the living players; \<open>u1\<close> and \<open>u2\<close> are the numbers the two
  \<^verbatim>\<open>updateGap\<close> calls would draw.
\<close>

definition updateGaps :: "Round \<Rightarrow> real \<Rightarrow> real \<Rightarrow> real \<Rightarrow> Round" where
  "updateGaps s deltaTimeSeconds u1 u2 =
     s\<lparr>playerOne := (if isAlive (playerOne s)
                       then (playerOne s)\<lparr>gap := updateGap (gap (playerOne s)) deltaTimeSeconds u1\<rparr>
                       else playerOne s),
       playerTwo := (if isAlive (playerTwo s)
                       then (playerTwo s)\<lparr>gap := updateGap (gap (playerTwo s)) deltaTimeSeconds u2\<rparr>
                       else playerTwo s)\<rparr>"

text \<open>
  The block of player one, then the block of player two; \<open>w\<close> and \<open>h\<close> are the canvas's
  client size. Each reads the other player's corridor as the round holds it when the
  block runs.
\<close>

definition movePlayerOne :: "Round \<Rightarrow> real \<Rightarrow> nat \<Rightarrow> nat \<Rightarrow> Round" where
  "movePlayerOne s deltaTimeSeconds w h =
     (let (trail', p) = resolvePlayer deltaTimeSeconds (real w) (real h) (trailMask s)
                          (playerOne s) (gapCorridor (playerTwo s))
      in s\<lparr>trailMask := trail', playerOne := p\<rparr>)"

definition movePlayerTwo :: "Round \<Rightarrow> real \<Rightarrow> nat \<Rightarrow> nat \<Rightarrow> Round" where
  "movePlayerTwo s deltaTimeSeconds w h =
     (let (trail', p) = resolvePlayer deltaTimeSeconds (real w) (real h) (trailMask s)
                          (playerTwo s) (gapCorridor (playerOne s))
      in s\<lparr>trailMask := trail', playerTwo := p\<rparr>)"

definition endRoundIfBothDead :: "Round \<Rightarrow> Round" where
  "endRoundIfBothDead s =
     (if \<not> isAlive (playerOne s) \<and> \<not> isAlive (playerTwo s)
      then s\<lparr>isMoving := False, hasRoundEnded := True\<rparr>
      else s)"

text \<open>\<^verbatim>\<open>drawHeadWithGap\<close>, as far as it changes the player.\<close>

definition drawHeadWithGap :: "PlayerState \<Rightarrow> PlayerState" where
  "drawHeadWithGap player =
     player\<lparr>lastRenderedPosition :=
       Some \<lparr>vx = vx (positionPixels player), vy = vy (positionPixels player)\<rparr>\<rparr>"

definition drawHeads :: "Round \<Rightarrow> Round" where
  "drawHeads s =
     s\<lparr>playerOne := drawHeadWithGap (playerOne s),
       playerTwo := drawHeadWithGap (playerTwo s)\<rparr>"

text \<open>The part of \<^verbatim>\<open>step\<close> inside \<^verbatim>\<open>if (isMoving && !hasRoundEnded)\<close>.\<close>

definition runningTick :: "Round \<Rightarrow> real \<Rightarrow> nat \<Rightarrow> nat \<Rightarrow> real \<Rightarrow> real \<Rightarrow> Round" where
  "runningTick s deltaTimeSeconds w h u1 u2 =
     endRoundIfBothDead
       (movePlayerTwo
          (movePlayerOne (updateGaps s deltaTimeSeconds u1 u2) deltaTimeSeconds w h)
          deltaTimeSeconds w h)"

text \<open>
  \<^verbatim>\<open>step\<close>: one animation frame at the time \<open>nowMs\<close>. The HUD update and the request
  for the next frame are not part of the state.
\<close>

definition step :: "Round \<Rightarrow> real \<Rightarrow> nat \<Rightarrow> nat \<Rightarrow> real \<Rightarrow> real \<Rightarrow> Round" where
  "step s nowMs w h u1 u2 =
     (let deltaTimeSeconds = (nowMs - lastTimestampMs s) / 1000;
          s1 = rotatePlayers (s\<lparr>lastTimestampMs := nowMs\<rparr>) deltaTimeSeconds;
          s2 = (if isMoving s1 \<and> \<not> hasRoundEnded s1
                then runningTick s1 deltaTimeSeconds w h u1 u2 else s1)
      in drawHeads s2)"

section \<open>Properties of the trail mask\<close>

lemma length_writeOcc [simp]: "length (writeOcc occ i) = length occ"
  by (simp add: writeOcc_def)

lemma length_markRow [simp]: "length (markRow cx dy2 r2 off xs occ) = length occ"
  by (induction xs arbitrary: occ) (simp_all add: Let_def)

lemma length_markRows [simp]: "length (markRows w cx cy r2 lo hi ys occ) = length occ"
  by (induction ys arbitrary: occ) (simp_all add: Let_def)

lemma readOcc_writeOcc:
  "readOcc (writeOcc occ j) i
     = (if i = j \<and> readOcc occ i \<noteq> None then Some 1 else readOcc occ i)"
  by (auto simp: readOcc_def writeOcc_def nth_list_update)

lemma readOcc_markRow:
  "readOcc (markRow cx dy2 r2 off xs occ) i
     = (if readOcc occ i \<noteq> None
           \<and> (\<exists>x\<in>set xs. off + x = i
                 \<and> (real_of_int x - cx) * (real_of_int x - cx) + dy2 \<le> r2)
        then Some 1 else readOcc occ i)"
proof (induction xs arbitrary: occ)
  case Nil
  show ?case by simp
next
  case (Cons a xs)
  show ?case
    by (simp add: Let_def Cons.IH readOcc_writeOcc) auto
qed

lemma readOcc_markRows:
  "readOcc (markRows w cx cy r2 lo hi ys occ) i
     = (if readOcc occ i \<noteq> None
           \<and> (\<exists>y\<in>set ys. \<exists>x\<in>{lo..hi}. y * int w + x = i \<and> distSq cx cy x y \<le> r2)
        then Some 1 else readOcc occ i)"
proof (induction ys arbitrary: occ)
  case Nil
  show ?case by simp
next
  case (Cons a ys)
  show ?case
    by (simp add: Let_def Cons.IH readOcc_markRow distSq_def) auto
qed

lemma cell_index_inj:
  fixes x y x' y' :: int and w :: nat
  assumes "0 \<le> x" "x < int w" "0 \<le> x'" "x' < int w" "y' * int w + x' = y * int w + x"
  shows "x' = x \<and> y' = y"
proof -
  have "(y' * int w + x') mod int w = x'" using assms(3,4) by simp
  moreover have "(y * int w + x) mod int w = x" using assms(1,2) by simp
  ultimately have x: "x' = x" using assms(5) by simp
  with assms have "y' * int w = y * int w" by simp
  moreover have "int w \<noteq> 0" using assms by auto
  ultimately show ?thesis using x by simp
qed

lemma belongsToIgnored_iff:
  "belongsToIgnored x y ir2 pts \<longleftrightarrow> (\<exists>p\<in>set pts. distSq (vx p) (vy p) x y \<le> ir2)"
  by (induction pts) (auto simp: Let_def distSq_def)

lemma scanRow_iff:
  "scanRow occ cx dy2 r2 ir2 pts y off xs \<longleftrightarrow>
     (\<exists>x\<in>set xs. (real_of_int x - cx) * (real_of_int x - cx) + dy2 \<le> r2
        \<and> readOcc occ (off + x) = Some 1 \<and> \<not> belongsToIgnored x y ir2 pts)"
  by (induction xs) (auto simp: Let_def)

lemma scanRows_iff:
  "scanRows m c r2 ir2 pts lo hi ys \<longleftrightarrow>
     (\<exists>y\<in>set ys. \<exists>x\<in>{lo..hi}. distSq (vx c) (vy c) x y \<le> r2
        \<and> cellAt m x y = Some 1 \<and> \<not> belongsToIgnored x y ir2 pts)"
  by (induction ys) (auto simp: Let_def scanRow_iff distSq_def cellAt_def)

lemma collides_iff:
  "collidesWithTrailExcludingPoints m c r pts mg \<longleftrightarrow>
     (\<exists>x y. inClampedBox m (vx c) (vy c) r x y \<and> distSq (vx c) (vy c) x y \<le> r * r
        \<and> cellAt m x y = Some 1
        \<and> \<not> (\<exists>p\<in>set pts. distSq (vx p) (vy p) x y \<le> (r + mg) * (r + mg)))"
  unfolding collidesWithTrailExcludingPoints_def Let_def scanRows_iff belongsToIgnored_iff
    inClampedBox_def
  by (simp only: set_upto atLeastAtMost_iff Bex_def) blast

lemma cellAt_markVisitedCircle:
  assumes "0 \<le> x" "x < int (widthPixels m)"
  shows "cellAt (markVisitedCircle m cx cy r) x y
     = (if cellAt m x y \<noteq> None \<and> inClampedBox m cx cy r x y \<and> distSq cx cy x y \<le> r * r
        then Some 1 else cellAt m x y)"
proof -
  let ?w = "int (widthPixels m)"
  let ?lo = "max 0 \<lfloor>cx - r\<rfloor>" and ?hi = "min (?w - 1) \<lceil>cx + r\<rceil>"
  let ?ylo = "max 0 \<lfloor>cy - r\<rfloor>" and ?yhi = "min (int (heightPixels m) - 1) \<lceil>cy + r\<rceil>"
  have "(\<exists>y'\<in>set [?ylo..?yhi]. \<exists>x'\<in>{?lo..?hi}. y' * ?w + x' = y * ?w + x
            \<and> distSq cx cy x' y' \<le> r * r)
        \<longleftrightarrow> (inClampedBox m cx cy r x y \<and> distSq cx cy x y \<le> r * r)" (is "?L \<longleftrightarrow> ?R")
  proof
    assume ?L
    then obtain y' x' where b: "?ylo \<le> y'" "y' \<le> ?yhi" "?lo \<le> x'" "x' \<le> ?hi"
      and e: "y' * ?w + x' = y * ?w + x" and d: "distSq cx cy x' y' \<le> r * r"
      by auto
    from b have "0 \<le> x'" "x' < ?w" by auto
    with assms e have "x' = x \<and> y' = y" by (intro cell_index_inj) auto
    with b d show ?R by (simp add: inClampedBox_def)
  next
    assume ?R
    then have "y \<in> set [?ylo..?yhi]" "x \<in> {?lo..?hi}" "distSq cx cy x y \<le> r * r"
      by (simp_all add: inClampedBox_def)
    then show ?L by blast
  qed
  then show ?thesis
    by (simp add: markVisitedCircle_def Let_def cellAt_def readOcc_markRows)
qed

lemma cellAt_markVisitedCircle_mono:
  "cellAt m x y = Some 1 \<Longrightarrow> cellAt (markVisitedCircle m cx cy r) x y = Some 1"
  by (simp add: markVisitedCircle_def Let_def cellAt_def readOcc_markRows)

lemma cellAt_createTrailMask:
  "cellAt (createTrailMask w h) x y \<noteq> Some 1"
  by (auto simp: cellAt_def createTrailMask_def readOcc_def)

lemma sqrt_le_iff_sq:
  assumes "0 \<le> b" "0 \<le> (a::real)"
  shows "sqrt a \<le> b \<longleftrightarrow> a \<le> b * b"
proof -
  have "sqrt a \<le> b \<longleftrightarrow> sqrt a \<le> sqrt (b * b)" using assms by simp
  also have "\<dots> \<longleftrightarrow> a \<le> b * b" by (rule real_sqrt_le_iff)
  finally show ?thesis .
qed

lemma distSq_nonneg: "0 \<le> distSq cx cy x y"
  by (simp add: distSq_def)

section \<open>The collision query\<close>

text \<open>
  Claim C1. For a radius \<open>r \<ge> 0\<close> and a margin \<open>mg \<ge> 0\<close>,
  \<^verbatim>\<open>collidesWithTrailExcludingPoints\<close> returns true exactly when some cell of the circle's
  bounding box, clamped to the grid, has squared distance at most \<open>r\<^sup>2\<close> to the center,
  holds the byte 1, and lies within distance \<open>r + mg\<close> of no excluded point. The right
  side mentions neither the order of the scan nor the order of the points: two lists
  with the same points give the same answer.
\<close>

theorem collides_iff_unexcluded_occupied_cell:
  assumes "0 \<le> r" and "0 \<le> mg"
  shows "(collidesWithTrailExcludingPoints m c r pts mg \<longleftrightarrow>
           (\<exists>x y. inClampedBox m (vx c) (vy c) r x y
              \<and> distSq (vx c) (vy c) x y \<le> r\<^sup>2
              \<and> cellAt m x y = Some 1
              \<and> (\<forall>p\<in>set pts. \<not> sqrt (distSq (vx p) (vy p) x y) \<le> r + mg)))
         \<and> (\<forall>pts'. set pts' = set pts \<longrightarrow>
               collidesWithTrailExcludingPoints m c r pts' mg
                 = collidesWithTrailExcludingPoints m c r pts mg)"
proof -
  have "0 \<le> r + mg" using assms by simp
  then have s: "\<And>p x y. sqrt (distSq (vx p) (vy p) x y) \<le> r + mg
                  \<longleftrightarrow> distSq (vx p) (vy p) x y \<le> (r + mg) * (r + mg)"
    by (intro sqrt_le_iff_sq distSq_nonneg)
  show ?thesis
    by (simp add: collides_iff s power2_eq_square)
qed


theorem collides_iff_unexcluded_occupied_cell_witness:
  "(0::real) \<le> 1 \<and> (0::real) \<le> 0
   \<and> collidesWithTrailExcludingPoints (markVisitedCircle (createTrailMask 3 3) 1 1 0)
        \<lparr>vx = 1, vy = 1\<rparr> 1 [] 0
   \<and> (\<exists>x y. inClampedBox (markVisitedCircle (createTrailMask 3 3) 1 1 0) 1 1 1 x y
          \<and> distSq 1 1 x y \<le> 1\<^sup>2
          \<and> cellAt (markVisitedCircle (createTrailMask 3 3) 1 1 0) x y = Some 1)"
proof -
  have e: "collidesWithTrailExcludingPoints (markVisitedCircle (createTrailMask 3 3) 1 1 0)
             \<lparr>vx = 1, vy = 1\<rparr> 1 [] 0"
    by code_simp
  from collides_iff_unexcluded_occupied_cell
         [of 1 0 "markVisitedCircle (createTrailMask 3 3) 1 1 0" "\<lparr>vx = 1, vy = 1\<rparr>" "[]"] e
  show ?thesis by simp
qed

lemma dims_markVisitedCircle [simp]:
  "widthPixels (markVisitedCircle m cx cy r) = widthPixels m"
  "heightPixels (markVisitedCircle m cx cy r) = heightPixels m"
  "length (occupancy (markVisitedCircle m cx cy r)) = length (occupancy m)"
  by (simp_all add: markVisitedCircle_def Let_def)

lemma inClampedBox_markVisitedCircle [simp]:
  "inClampedBox (markVisitedCircle m cx cy r) ax ay ar x y = inClampedBox m ax ay ar x y"
  by (simp add: inClampedBox_def)

lemma nth_markVisitedCircle:
  assumes "i < length (occupancy m)"
  shows "occupancy (markVisitedCircle m cx cy r) ! i = occupancy m ! i
         \<or> occupancy (markVisitedCircle m cx cy r) ! i = 1"
proof -
  let ?occ' = "occupancy (markVisitedCircle m cx cy r)"
  have l: "length ?occ' = length (occupancy m)"
    by (simp add: markVisitedCircle_def Let_def)
  have "readOcc ?occ' (int i) = Some 1 \<or> readOcc ?occ' (int i) = readOcc (occupancy m) (int i)"
    by (simp add: markVisitedCircle_def Let_def readOcc_markRows)
  with assms l show ?thesis by (auto simp: readOcc_def)
qed

section \<open>Marking only adds trail\<close>

text \<open>
  Claim C10. \<^verbatim>\<open>markVisitedCircle\<close> only adds trail: a cell that held 1 before the call
  holds 1 after it, and an entry that was 0 or 1 does not decrease; a cell of the grid
  whose squared distance to the center exceeds the squared radius is unchanged, and so
  is a cell of the grid outside the clamped bounding box. The size of the mask is
  unchanged.
\<close>

theorem markVisitedCircle_only_adds_trail:
  "(\<forall>x y. cellAt m x y = Some 1 \<longrightarrow> cellAt (markVisitedCircle m cx cy r) x y = Some 1)
   \<and> (\<forall>i<length (occupancy m). occupancy m ! i \<le> 1 \<longrightarrow>
         occupancy m ! i \<le> occupancy (markVisitedCircle m cx cy r) ! i)
   \<and> (\<forall>x y. 0 \<le> x \<and> x < int (widthPixels m) \<and> 0 \<le> y \<and> y < int (heightPixels m)
          \<and> r * r < distSq cx cy x y \<longrightarrow>
          cellAt (markVisitedCircle m cx cy r) x y = cellAt m x y)
   \<and> (\<forall>x y. 0 \<le> x \<and> x < int (widthPixels m) \<and> 0 \<le> y \<and> y < int (heightPixels m)
          \<and> \<not> inClampedBox m cx cy r x y \<longrightarrow>
          cellAt (markVisitedCircle m cx cy r) x y = cellAt m x y)
   \<and> widthPixels (markVisitedCircle m cx cy r) = widthPixels m
   \<and> heightPixels (markVisitedCircle m cx cy r) = heightPixels m
   \<and> length (occupancy (markVisitedCircle m cx cy r)) = length (occupancy m)"
proof (intro conjI allI impI)
  fix x y assume "cellAt m x y = Some 1"
  then show "cellAt (markVisitedCircle m cx cy r) x y = Some 1"
    by (rule cellAt_markVisitedCircle_mono)
next
  fix i assume "i < length (occupancy m)" and "occupancy m ! i \<le> 1"
  with nth_markVisitedCircle [of i m cx cy r]
  show "occupancy m ! i \<le> occupancy (markVisitedCircle m cx cy r) ! i"
    by auto
next
  fix x y
  assume "0 \<le> x \<and> x < int (widthPixels m) \<and> 0 \<le> y \<and> y < int (heightPixels m)
          \<and> r * r < distSq cx cy x y"
  then show "cellAt (markVisitedCircle m cx cy r) x y = cellAt m x y"
    by (simp add: cellAt_markVisitedCircle)
next
  fix x y
  assume "0 \<le> x \<and> x < int (widthPixels m) \<and> 0 \<le> y \<and> y < int (heightPixels m)
          \<and> \<not> inClampedBox m cx cy r x y"
  then show "cellAt (markVisitedCircle m cx cy r) x y = cellAt m x y"
    by (simp add: cellAt_markVisitedCircle)
qed (simp_all add: markVisitedCircle_def Let_def)

theorem markVisitedCircle_only_adds_trail_witness:
  "cellAt (markVisitedCircle (createTrailMask 3 3) 0 0 0) 0 0 = Some 1
   \<and> cellAt (markVisitedCircle (markVisitedCircle (createTrailMask 3 3) 0 0 0) 2 2 1) 0 0 = Some 1
   \<and> (1::real) * 1 < distSq 2 2 0 1
   \<and> cellAt (markVisitedCircle (markVisitedCircle (createTrailMask 3 3) 0 0 0) 2 2 1) 0 1
       = cellAt (markVisitedCircle (createTrailMask 3 3) 0 0 0) 0 1"
proof -
  let ?m = "markVisitedCircle (createTrailMask 3 3) 0 0 0"
  have a: "cellAt ?m 0 0 = Some 1" by code_simp
  have d: "(1::real) * 1 < distSq 2 2 0 1" by (simp add: distSq_def)
  have w: "widthPixels ?m = 3" "heightPixels ?m = 3"
    by (simp_all add: markVisitedCircle_def createTrailMask_def Let_def)
  from markVisitedCircle_only_adds_trail [of ?m 2 2 1]
  have m: "cellAt ?m 0 0 = Some 1 \<longrightarrow> cellAt (markVisitedCircle ?m 2 2 1) 0 0 = Some 1"
    and f: "(0::int) \<le> 0 \<and> (0::int) < int (widthPixels ?m) \<and> (0::int) \<le> 1
          \<and> (1::int) < int (heightPixels ?m) \<and> (1::real) * 1 < distSq 2 2 0 1 \<longrightarrow>
          cellAt (markVisitedCircle ?m 2 2 1) 0 1 = cellAt ?m 0 1"
    by blast+
  from a m have 1: "cellAt (markVisitedCircle ?m 2 2 1) 0 0 = Some 1" by blast
  from f d w have 2: "cellAt (markVisitedCircle ?m 2 2 1) 0 1 = cellAt ?m 0 1" by simp
  from a 1 d 2 show ?thesis by blast
qed

lemma no_collision_when_center_excluded:
  "\<not> collidesWithTrailExcludingPoints m \<lparr>vx = px, vy = py\<rparr> r [\<lparr>vx = px, vy = py\<rparr>] r"
proof
  assume "collidesWithTrailExcludingPoints m \<lparr>vx = px, vy = py\<rparr> r [\<lparr>vx = px, vy = py\<rparr>] r"
  then obtain x y where a: "distSq px py x y \<le> r * r"
    and b: "\<not> distSq px py x y \<le> (r + r) * (r + r)"
    by (auto simp: collides_iff)
  have "r * r \<le> (r + r) * (r + r)"
    by (simp add: algebra_simps)
  with a b show False by simp
qed

section \<open>Self-exclusion\<close>

text \<open>
  Claim C7. For a point \<open>(px, py)\<close> and a radius \<open>r \<ge> 0\<close>: after stamping the circle on a
  fresh mask, the query at the same point with the same radius, excluding that point
  with margin \<open>r\<close>, returns false.
\<close>

theorem self_exclusion_neutralizes_fresh_mark:
  assumes "0 \<le> r"
  shows "\<not> collidesWithTrailExcludingPoints
             (markVisitedCircle (createTrailMask w h) px py r)
             \<lparr>vx = px, vy = py\<rparr> r [\<lparr>vx = px, vy = py\<rparr>] r"
  by (rule no_collision_when_center_excluded)

theorem self_exclusion_neutralizes_fresh_mark_witness:
  "(0::real) \<le> 2
   \<and> cellAt (markVisitedCircle (createTrailMask 5 5) 2 2 2) 2 2 = Some 1
   \<and> \<not> collidesWithTrailExcludingPoints
           (markVisitedCircle (createTrailMask 5 5) 2 2 2)
           \<lparr>vx = 2, vy = 2\<rparr> 2 [\<lparr>vx = 2, vy = 2\<rparr>] 2"
proof -
  have "cellAt (markVisitedCircle (createTrailMask 5 5) 2 2 2) 2 2 = Some 1" by code_simp
  with self_exclusion_neutralizes_fresh_mark [of 2 5 5 2 2] show ?thesis by simp
qed

lemma cell_index_bound:
  fixes x y :: int and w h :: nat
  assumes "0 \<le> x" "x < int w" "0 \<le> y" "y < int h"
  shows "0 \<le> y * int w + x \<and> nat (y * int w + x) < w * h"
proof -
  have "(y + 1) * int w \<le> int h * int w"
    using assms by (intro mult_right_mono) auto
  then have "y * int w + x < int h * int w"
    using assms by (simp add: algebra_simps)
  moreover have "0 \<le> y * int w" using assms by simp
  ultimately show ?thesis
    using assms by (simp add: nat_less_iff mult.commute)
qed

section \<open>A mark is seen by the query\<close>

lemma js_round_nearest:
  fixes x :: int
  shows "(real_of_int (js_round c) - c) * (real_of_int (js_round c) - c)
           \<le> (real_of_int x - c) * (real_of_int x - c)"
proof -
  let ?n = "js_round c"
  have lo: "real_of_int ?n \<le> c + 1 / 2" and hi: "c + 1 / 2 < real_of_int ?n + 1"
    unfolding js_round_def by linarith+
  have "\<bar>real_of_int ?n - c\<bar> \<le> \<bar>real_of_int x - c\<bar>"
  proof (cases "x = ?n")
    case True
    then show ?thesis by simp
  next
    case False
    then consider "x \<le> ?n - 1" | "?n + 1 \<le> x" by linarith
    then show ?thesis
    proof cases
      case 1
      then have "real_of_int x \<le> real_of_int ?n - 1" by linarith
      with lo hi show ?thesis by linarith
    next
      case 2
      then have "real_of_int ?n + 1 \<le> real_of_int x" by linarith
      with lo hi show ?thesis by linarith
    qed
  qed
  then have "(real_of_int ?n - c)\<^sup>2 \<le> (real_of_int x - c)\<^sup>2"
    by (simp only: abs_le_square_iff)
  then show ?thesis by (simp add: power2_eq_square)
qed

lemma js_round_close:
  "(real_of_int (js_round c) - c) * (real_of_int (js_round c) - c) \<le> 1 / 4"
proof -
  let ?n = "js_round c"
  have lo: "real_of_int ?n \<le> c + 1 / 2" and hi: "c + 1 / 2 < real_of_int ?n + 1"
    unfolding js_round_def by linarith+
  then have "\<bar>real_of_int ?n - c\<bar> \<le> 1 / 2" by linarith
  then have "\<bar>real_of_int ?n - c\<bar> \<le> \<bar>1 / 2 :: real\<bar>" by simp
  then have "(real_of_int ?n - c)\<^sup>2 \<le> (1 / 2 :: real)\<^sup>2"
    by (simp only: abs_le_square_iff)
  then show ?thesis by (simp add: power2_eq_square)
qed

lemma js_round_in_range:
  assumes "0 \<le> r" and "0 \<le> c - r" and "c + r \<le> real n - 1"
  shows "max 0 \<lfloor>c - r\<rfloor> \<le> js_round c \<and> js_round c \<le> min (int n - 1) \<lceil>c + r\<rceil>"
proof -
  have "0 \<le> js_round c" "\<lfloor>c - r\<rfloor> \<le> js_round c"
    using assms unfolding js_round_def by (simp_all add: floor_mono)
  moreover have "js_round c \<le> \<lceil>c\<rceil>"
    unfolding js_round_def by linarith
  moreover have "\<lceil>c\<rceil> \<le> \<lceil>c + r\<rceil>"
    using assms(1) by (intro ceiling_mono) simp
  moreover have "c \<le> real_of_int (int n - 1)"
    using assms by simp
  then have "\<lceil>c\<rceil> \<le> int n - 1"
    by (rule ceiling_le)
  ultimately show ?thesis by simp
qed

lemma mark_radius_zero_at_cell:
  assumes "cx = real_of_int a" and "cy = real_of_int c"
    and "0 \<le> a" and "a < int (widthPixels m)" and "0 \<le> c" and "c < int (heightPixels m)"
  shows "markVisitedCircle m cx cy 0
           = m\<lparr>occupancy := (occupancy m)[nat (c * int (widthPixels m) + a) := 1]\<rparr>"
proof -
  have "0 \<le> c * int (widthPixels m) + a" using assms by simp
  with assms show ?thesis
    by (simp add: markVisitedCircle_def Let_def writeOcc_def)
qed

text \<open>
  Claim C3, amended. For a radius \<open>r \<ge> 0\<close> and a center, of any real coordinates,
  whose circle lies inside the grid of a mask with \<open>widthPixels * heightPixels\<close>
  entries: after \<^verbatim>\<open>markVisitedCircle\<close> the query at that center with radius \<open>r\<close>, no
  excluded point and margin \<open>r\<close> returns true exactly when the cell nearest to the
  center (each coordinate rounded) lies within \<open>r\<close> of it. That is so for every center
  when \<open>r\<^sup>2 \<ge> 1/2\<close>, the dot radius 2 included, and for every center with integer
  coordinates at every \<open>r \<ge> 0\<close>; a mark of radius 0 at a center with integer
  coordinates sets exactly the center's cell.
\<close>

theorem mark_then_collides_iff_nearest_cell:
  assumes "0 \<le> r"
    and "length (occupancy m) = widthPixels m * heightPixels m"
    and "0 \<le> cx - r" and "cx + r \<le> real (widthPixels m) - 1"
    and "0 \<le> cy - r" and "cy + r \<le> real (heightPixels m) - 1"
  shows "(collidesWithTrailExcludingPoints (markVisitedCircle m cx cy r)
            \<lparr>vx = cx, vy = cy\<rparr> r [] r
          \<longleftrightarrow> distSq cx cy (js_round cx) (js_round cy) \<le> r * r)
       \<and> (1 / 2 \<le> r * r \<longrightarrow>
            collidesWithTrailExcludingPoints (markVisitedCircle m cx cy r)
              \<lparr>vx = cx, vy = cy\<rparr> r [] r)
       \<and> (cx = real_of_int (js_round cx) \<and> cy = real_of_int (js_round cy) \<longrightarrow>
            collidesWithTrailExcludingPoints (markVisitedCircle m cx cy r)
              \<lparr>vx = cx, vy = cy\<rparr> r [] r
            \<and> markVisitedCircle m cx cy 0
                = m\<lparr>occupancy :=
                     (occupancy m)[nat (js_round cy * int (widthPixels m) + js_round cx) := 1]\<rparr>)"
proof -
  let ?m' = "markVisitedCircle m cx cy r"
  let ?n = "js_round cx" and ?k = "js_round cy"
  from js_round_in_range [OF assms(1,3,4)] js_round_in_range [OF assms(1,5,6)]
  have b: "inClampedBox m cx cy r ?n ?k"
    by (simp add: inClampedBox_def)
  then have g: "0 \<le> ?n" "?n < int (widthPixels m)" "0 \<le> ?k" "?k < int (heightPixels m)"
    by (simp_all add: inClampedBox_def)
  from cell_index_bound [OF g] assms(2) have nn: "cellAt m ?n ?k \<noteq> None"
    by (simp add: cellAt_def readOcc_def)
  have near: "distSq cx cy ?n ?k \<le> distSq cx cy x y" for x y
    unfolding distSq_def
    using js_round_nearest [of cx x] js_round_nearest [of cy y] by linarith
  have iff: "collidesWithTrailExcludingPoints ?m' \<lparr>vx = cx, vy = cy\<rparr> r [] r
          \<longleftrightarrow> distSq cx cy ?n ?k \<le> r * r"
  proof
    assume "collidesWithTrailExcludingPoints ?m' \<lparr>vx = cx, vy = cy\<rparr> r [] r"
    then obtain x y where "distSq cx cy x y \<le> r * r"
      by (auto simp: collides_iff)
    with near [of x y] show "distSq cx cy ?n ?k \<le> r * r" by linarith
  next
    assume d: "distSq cx cy ?n ?k \<le> r * r"
    with g b nn have "cellAt ?m' ?n ?k = Some 1"
      by (simp add: cellAt_markVisitedCircle)
    with b d show "collidesWithTrailExcludingPoints ?m' \<lparr>vx = cx, vy = cy\<rparr> r [] r"
      by (auto simp: collides_iff)
  qed
  have half: "distSq cx cy ?n ?k \<le> 1 / 2"
    unfolding distSq_def using js_round_close [of cx] js_round_close [of cy] by linarith
  have big: "collidesWithTrailExcludingPoints ?m' \<lparr>vx = cx, vy = cy\<rparr> r [] r"
    if "1 / 2 \<le> r * r"
    using that half iff by linarith
  have int_case: "collidesWithTrailExcludingPoints ?m' \<lparr>vx = cx, vy = cy\<rparr> r [] r
            \<and> markVisitedCircle m cx cy 0
                = m\<lparr>occupancy :=
                     (occupancy m)[nat (?k * int (widthPixels m) + ?n) := 1]\<rparr>"
    if h: "cx = real_of_int ?n \<and> cy = real_of_int ?k"
  proof
    from h have z: "distSq cx cy ?n ?k = 0" by (simp add: distSq_def)
    have "0 \<le> r * r" by simp
    with z iff show "collidesWithTrailExcludingPoints ?m' \<lparr>vx = cx, vy = cy\<rparr> r [] r"
      by simp
    from h have hx: "cx = real_of_int ?n" and hy: "cy = real_of_int ?k" by blast+
    from mark_radius_zero_at_cell [OF hx hy g]
    show "markVisitedCircle m cx cy 0
        = m\<lparr>occupancy := (occupancy m)[nat (?k * int (widthPixels m) + ?n) := 1]\<rparr>" .
  qed
  from iff big int_case show ?thesis by blast
qed

theorem mark_then_collides_iff_nearest_cell_witness:
  "(0::real) \<le> 1
   \<and> length (occupancy (createTrailMask 4 4))
       = widthPixels (createTrailMask 4 4) * heightPixels (createTrailMask 4 4)
   \<and> (1::real) / 2 \<le> 1 * 1
   \<and> collidesWithTrailExcludingPoints (markVisitedCircle (createTrailMask 4 4) (3 / 2) (3 / 2) 1)
        \<lparr>vx = 3 / 2, vy = 3 / 2\<rparr> 1 [] 1
   \<and> (2::real) = real_of_int (js_round 2)
   \<and> collidesWithTrailExcludingPoints (markVisitedCircle (createTrailMask 4 4) 2 2 1)
        \<lparr>vx = 2, vy = 2\<rparr> 1 [] 1
   \<and> markVisitedCircle (createTrailMask 4 4) 2 2 0
       = (createTrailMask 4 4)\<lparr>occupancy := (occupancy (createTrailMask 4 4))[10 := 1]\<rparr>"
proof -
  have a: "length (occupancy (createTrailMask 4 4))
             = widthPixels (createTrailMask 4 4) * heightPixels (createTrailMask 4 4)"
    by (simp add: createTrailMask_def)
  have w: "widthPixels (createTrailMask 4 4) = 4" "heightPixels (createTrailMask 4 4) = 4"
    by (simp_all add: createTrailMask_def)
  have r: "(2::real) = real_of_int (js_round 2)" "js_round 2 = 2"
    by (simp_all add: js_round_def)
  have p: "(0::real) \<le> 1" by simp
  have i: "(0::real) \<le> 3 / 2 - 1" "(3::real) / 2 + 1 \<le> real (widthPixels (createTrailMask 4 4)) - 1"
    "(3::real) / 2 + 1 \<le> real (heightPixels (createTrailMask 4 4)) - 1"
    and j: "(0::real) \<le> 2 - 1" "(2::real) + 1 \<le> real (widthPixels (createTrailMask 4 4)) - 1"
    "(2::real) + 1 \<le> real (heightPixels (createTrailMask 4 4)) - 1"
    by (simp_all add: w)
  have h: "(1::real) / 2 \<le> 1 * 1" by simp
  from mark_then_collides_iff_nearest_cell [OF p a i(1) i(2) i(1) i(3), THEN conjunct2,
      THEN conjunct1, THEN mp, OF h]
  have 1: "collidesWithTrailExcludingPoints
             (markVisitedCircle (createTrailMask 4 4) (3 / 2) (3 / 2) 1)
             \<lparr>vx = 3 / 2, vy = 3 / 2\<rparr> 1 [] 1" .
  from mark_then_collides_iff_nearest_cell [OF p a j(1) j(2) j(1) j(3), THEN conjunct2,
      THEN conjunct2, THEN mp, OF conjI [OF r(1) r(1)]]
  have 2: "collidesWithTrailExcludingPoints (markVisitedCircle (createTrailMask 4 4) 2 2 1)
             \<lparr>vx = 2, vy = 2\<rparr> 1 [] 1
           \<and> markVisitedCircle (createTrailMask 4 4) 2 2 0
               = (createTrailMask 4 4)\<lparr>occupancy := (occupancy (createTrailMask 4 4))[10 := 1]\<rparr>"
    by (simp add: r(2) w)
  note 3 = conjunct1 [OF 2] and 4 = conjunct2 [OF 2] and 5 = r(1)
  show ?thesis by (intro conjI; fact)
qed

text \<open>
  The claim as stated, for every center and every radius, fails at the center
  \<open>(1/2, 1/2)\<close> with radius 0 on a fresh 2 by 2 mask: the circle lies inside the grid,
  the nearest cell is at squared distance 1/2, no cell has squared distance 0 to the
  center, so the mark sets no cell and the query returns false.
\<close>

theorem mark_fractional_center_counterexample:
  "(0::real) \<le> 0
   \<and> (0::real) \<le> 1 / 2 - 0 \<and> (1::real) / 2 + 0 \<le> real (widthPixels (createTrailMask 2 2)) - 1
   \<and> (1::real) / 2 + 0 \<le> real (heightPixels (createTrailMask 2 2)) - 1
   \<and> \<not> collidesWithTrailExcludingPoints
           (markVisitedCircle (createTrailMask 2 2) (1 / 2) (1 / 2) 0)
           \<lparr>vx = 1 / 2, vy = 1 / 2\<rparr> 0 [] 0
   \<and> occupancy (markVisitedCircle (createTrailMask 2 2) (1 / 2) (1 / 2) 0) = [0, 0, 0, 0]"
proof -
  have "\<not> collidesWithTrailExcludingPoints
           (markVisitedCircle (createTrailMask 2 2) (1 / 2) (1 / 2) 0)
           \<lparr>vx = 1 / 2, vy = 1 / 2\<rparr> 0 [] 0"
    by code_simp
  moreover have "occupancy (markVisitedCircle (createTrailMask 2 2) (1 / 2) (1 / 2) 0) = [0, 0, 0, 0]"
    by code_simp
  ultimately show ?thesis by (simp add: createTrailMask_def)
qed

section \<open>The two buffers\<close>

lemma keepLast_snoc:
  assumes "0 < n"
  shows "keepLast n (keepLast n xs @ [a]) = keepLast n (xs @ [a])"
proof (cases "length xs \<le> n")
  case True
  then show ?thesis by (simp add: keepLast_def)
next
  case False
  then have "length xs - n + n = length xs" by simp
  with False assms show ?thesis
    by (simp add: keepLast_def Suc_diff_le)
qed

lemma length_keepLast: "length (keepLast n xs) \<le> n"
  by (simp add: keepLast_def)

lemma pushRecent_keepLast:
  assumes "length (recentPositions p) \<le> TRAIL_recentIgnoreFrameCount"
  shows "recentPositions (pushRecent p pt)
           = keepLast TRAIL_recentIgnoreFrameCount (recentPositions p @ [pt])"
proof (cases "length (recentPositions p) = TRAIL_recentIgnoreFrameCount")
  case True
  then have "recentPositions p \<noteq> []"
    by (auto simp: TRAIL_recentIgnoreFrameCount_def)
  with True show ?thesis
    by (simp add: pushRecent_def keepLast_def Let_def drop_Suc TRAIL_recentIgnoreFrameCount_def)
next
  case False
  with assms show ?thesis
    by (simp add: pushRecent_def keepLast_def Let_def)
qed

lemma pushGapCorridor_keepLast:
  "gapCorridor (pushGapCorridor p pt)
     = keepLast GAPS_corridorMaxPoints (gapCorridor p @ [pt])"
  by (simp add: pushGapCorridor_def keepLast_def Let_def)

lemma pushRecent_other [simp]:
  "gapCorridor (pushRecent p pt) = gapCorridor p"
  "scoreSeconds (pushRecent p pt) = scoreSeconds p"
  "positionPixels (pushRecent p pt) = positionPixels p"
  "isAlive (pushRecent p pt) = isAlive p"
  "gap (pushRecent p pt) = gap p"
  "angleRadians (pushRecent p pt) = angleRadians p"
  by (simp_all add: pushRecent_def Let_def)

lemma pushGapCorridor_other [simp]:
  "recentPositions (pushGapCorridor p pt) = recentPositions p"
  "scoreSeconds (pushGapCorridor p pt) = scoreSeconds p"
  "positionPixels (pushGapCorridor p pt) = positionPixels p"
  "isAlive (pushGapCorridor p pt) = isAlive p"
  "gap (pushGapCorridor p pt) = gap p"
  "angleRadians (pushGapCorridor p pt) = angleRadians p"
  by (simp_all add: pushGapCorridor_def Let_def)

lemma applyOps_buffers:
  "recentPositions (applyOps (p\<lparr>recentPositions := keepLast TRAIL_recentIgnoreFrameCount rs,
                                gapCorridor := keepLast GAPS_corridorMaxPoints cs\<rparr>) ops)
     = keepLast TRAIL_recentIgnoreFrameCount (rs @ recentPushes ops)
   \<and> gapCorridor (applyOps (p\<lparr>recentPositions := keepLast TRAIL_recentIgnoreFrameCount rs,
                                gapCorridor := keepLast GAPS_corridorMaxPoints cs\<rparr>) ops)
     = keepLast GAPS_corridorMaxPoints (cs @ corridorPushes ops)"
proof (induction ops arbitrary: p rs cs)
  case Nil
  show ?case by simp
next
  case (Cons op ops)
  let ?p = "p\<lparr>recentPositions := keepLast TRAIL_recentIgnoreFrameCount rs,
               gapCorridor := keepLast GAPS_corridorMaxPoints cs\<rparr>"
  show ?case
  proof (cases op)
    case (PushRecent pt)
    have "pushRecent ?p pt
            = (pushRecent ?p pt)\<lparr>recentPositions := keepLast TRAIL_recentIgnoreFrameCount (rs @ [pt]),
                 gapCorridor := keepLast GAPS_corridorMaxPoints cs\<rparr>"
      using pushRecent_keepLast [of ?p pt] keepLast_snoc [of TRAIL_recentIgnoreFrameCount rs pt]
      by (simp add: length_keepLast) (simp add: TRAIL_recentIgnoreFrameCount_def)
    then have "applyOps ?p (op # ops)
            = applyOps ((pushRecent ?p pt)\<lparr>recentPositions := keepLast TRAIL_recentIgnoreFrameCount (rs @ [pt]),
                 gapCorridor := keepLast GAPS_corridorMaxPoints cs\<rparr>) ops"
      using PushRecent by simp
    then show ?thesis
      using Cons.IH [where p = "pushRecent ?p pt" and rs = "rs @ [pt]" and cs = cs] PushRecent by simp
  next
    case (PushGapCorridor pt)
    have "pushGapCorridor ?p pt
            = (pushGapCorridor ?p pt)\<lparr>recentPositions := keepLast TRAIL_recentIgnoreFrameCount rs,
                 gapCorridor := keepLast GAPS_corridorMaxPoints (cs @ [pt])\<rparr>"
      using pushGapCorridor_keepLast [of ?p pt] keepLast_snoc [of GAPS_corridorMaxPoints cs pt]
      by simp (simp add: GAPS_corridorMaxPoints_def)
    then have "applyOps ?p (op # ops)
            = applyOps ((pushGapCorridor ?p pt)\<lparr>recentPositions := keepLast TRAIL_recentIgnoreFrameCount rs,
                 gapCorridor := keepLast GAPS_corridorMaxPoints (cs @ [pt])\<rparr>) ops"
      using PushGapCorridor by simp
    then show ?thesis
      using Cons.IH [where p = "pushGapCorridor ?p pt" and rs = rs and cs = "cs @ [pt]"] PushGapCorridor by simp
  qed
qed

text \<open>
  Claim C8. Starting from buffers within their capacities (the program starts both
  empty), after every sequence of \<^verbatim>\<open>pushRecent\<close> and \<^verbatim>\<open>pushGapCorridor\<close> calls the
  recent-positions buffer holds at most 10 entries and the gap-corridor buffer at most
  600; each buffer is the last 10 (600) of its initial entries followed by the points
  pushed to it, in insertion order, so what is dropped is always the oldest entries
  at the front.
\<close>

theorem buffers_bounded_fifo:
  assumes "length (recentPositions p) \<le> TRAIL_recentIgnoreFrameCount"
    and "length (gapCorridor p) \<le> GAPS_corridorMaxPoints"
  shows "length (recentPositions (applyOps p ops)) \<le> 10
       \<and> length (gapCorridor (applyOps p ops)) \<le> 600
       \<and> recentPositions (applyOps p ops) = keepLast 10 (recentPositions p @ recentPushes ops)
       \<and> gapCorridor (applyOps p ops) = keepLast 600 (gapCorridor p @ corridorPushes ops)"
proof -
  have "p = p\<lparr>recentPositions := keepLast TRAIL_recentIgnoreFrameCount (recentPositions p),
              gapCorridor := keepLast GAPS_corridorMaxPoints (gapCorridor p)\<rparr>"
    using assms by (simp add: keepLast_def)
  with applyOps_buffers [where p = p and rs = "recentPositions p" and cs = "gapCorridor p" and ops = ops]
  have "recentPositions (applyOps p ops)
          = keepLast TRAIL_recentIgnoreFrameCount (recentPositions p @ recentPushes ops)
      \<and> gapCorridor (applyOps p ops)
          = keepLast GAPS_corridorMaxPoints (gapCorridor p @ corridorPushes ops)"
    by simp
  then show ?thesis
    using length_keepLast [of 10 "recentPositions p @ recentPushes ops"]
      length_keepLast [of 600 "gapCorridor p @ corridorPushes ops"]
    by (simp add: TRAIL_recentIgnoreFrameCount_def GAPS_corridorMaxPoints_def)
qed

theorem buffers_bounded_fifo_witness:
  "length (recentPositions (playerOne (initialRound 0 0 0))) \<le> TRAIL_recentIgnoreFrameCount
   \<and> length (gapCorridor (playerOne (initialRound 0 0 0))) \<le> GAPS_corridorMaxPoints
   \<and> recentPositions (applyOps (playerOne (initialRound 0 0 0))
        [PushRecent \<lparr>vx = 1, vy = 0\<rparr>, PushRecent \<lparr>vx = 2, vy = 0\<rparr>,
         PushRecent \<lparr>vx = 3, vy = 0\<rparr>, PushRecent \<lparr>vx = 4, vy = 0\<rparr>,
         PushGapCorridor \<lparr>vx = 0, vy = 7\<rparr>,
         PushRecent \<lparr>vx = 5, vy = 0\<rparr>, PushRecent \<lparr>vx = 6, vy = 0\<rparr>,
         PushRecent \<lparr>vx = 7, vy = 0\<rparr>, PushRecent \<lparr>vx = 8, vy = 0\<rparr>,
         PushRecent \<lparr>vx = 9, vy = 0\<rparr>, PushRecent \<lparr>vx = 10, vy = 0\<rparr>,
         PushRecent \<lparr>vx = 11, vy = 0\<rparr>, PushRecent \<lparr>vx = 12, vy = 0\<rparr>])
       = [\<lparr>vx = 3, vy = 0\<rparr>, \<lparr>vx = 4, vy = 0\<rparr>, \<lparr>vx = 5, vy = 0\<rparr>, \<lparr>vx = 6, vy = 0\<rparr>,
          \<lparr>vx = 7, vy = 0\<rparr>, \<lparr>vx = 8, vy = 0\<rparr>, \<lparr>vx = 9, vy = 0\<rparr>, \<lparr>vx = 10, vy = 0\<rparr>,
          \<lparr>vx = 11, vy = 0\<rparr>, \<lparr>vx = 12, vy = 0\<rparr>]"
proof -
  let ?ops = "[PushRecent \<lparr>vx = 1, vy = 0\<rparr>, PushRecent \<lparr>vx = 2, vy = 0\<rparr>,
         PushRecent \<lparr>vx = 3, vy = 0\<rparr>, PushRecent \<lparr>vx = 4, vy = 0\<rparr>,
         PushGapCorridor \<lparr>vx = 0, vy = 7\<rparr>,
         PushRecent \<lparr>vx = 5, vy = 0\<rparr>, PushRecent \<lparr>vx = 6, vy = 0\<rparr>,
         PushRecent \<lparr>vx = 7, vy = 0\<rparr>, PushRecent \<lparr>vx = 8, vy = 0\<rparr>,
         PushRecent \<lparr>vx = 9, vy = 0\<rparr>, PushRecent \<lparr>vx = 10, vy = 0\<rparr>,
         PushRecent \<lparr>vx = 11, vy = 0\<rparr>, PushRecent \<lparr>vx = 12, vy = 0\<rparr>]"
  have a: "length (recentPositions (playerOne (initialRound 0 0 0))) \<le> TRAIL_recentIgnoreFrameCount"
    and b: "length (gapCorridor (playerOne (initialRound 0 0 0))) \<le> GAPS_corridorMaxPoints"
    by (simp_all add: initialRound_def)
  have e: "recentPositions (playerOne (initialRound 0 0 0)) = []"
    by (simp add: initialRound_def)
  from buffers_bounded_fifo [OF a b, of ?ops]
  have "recentPositions (applyOps (playerOne (initialRound 0 0 0)) ?ops)
          = keepLast 10 (recentPositions (playerOne (initialRound 0 0 0)) @ recentPushes ?ops)"
    by blast
  also have "\<dots> = keepLast 10 (recentPushes ?ops)"
    by (simp only: e append_Nil)
  also have "\<dots> = [\<lparr>vx = 3, vy = 0\<rparr>, \<lparr>vx = 4, vy = 0\<rparr>, \<lparr>vx = 5, vy = 0\<rparr>, \<lparr>vx = 6, vy = 0\<rparr>,
          \<lparr>vx = 7, vy = 0\<rparr>, \<lparr>vx = 8, vy = 0\<rparr>, \<lparr>vx = 9, vy = 0\<rparr>, \<lparr>vx = 10, vy = 0\<rparr>,
          \<lparr>vx = 11, vy = 0\<rparr>, \<lparr>vx = 12, vy = 0\<rparr>]"
    by (simp add: keepLast_def)
  finally show ?thesis using a b by blast
qed

section \<open>The gap timer's phases\<close>

lemma runGap_snoc: "runGap g (ts @ [(dt, u)]) = updateGap (runGap g ts) dt u"
  by (induction g ts rule: runGap.induct) simp_all

lemma randomInRange_bounds:
  assumes "0 \<le> u" "u < 1" "lo < hi"
  shows "lo \<le> randomInRange lo hi u \<and> randomInRange lo hi u < hi"
proof -
  have "0 \<le> u * (hi - lo)" using assms by simp
  moreover have "u * (hi - lo) < 1 * (hi - lo)"
    using assms by (intro mult_strict_right_mono) simp_all
  ultimately show ?thesis by (simp add: randomInRange_def)
qed

lemma updateGap_solid:
  assumes "\<not> isActive g"
  shows "updateGap g dt u =
           (if timeUntilNextGap g - dt \<le> 0
            then g\<lparr>timeUntilNextGap := timeUntilNextGap g - dt, isActive := True,
                   remainingGapTime := randomInRange GAPS_minDurationSeconds GAPS_maxDurationSeconds u\<rparr>
            else g\<lparr>timeUntilNextGap := timeUntilNextGap g - dt\<rparr>)"
  using assms by (simp add: updateGap_def GAPS_enabled_def Let_def)

lemma updateGap_active:
  assumes "isActive g"
  shows "updateGap g dt u =
           (if remainingGapTime g - dt \<le> 0
            then g\<lparr>remainingGapTime := remainingGapTime g - dt, isActive := False,
                   timeUntilNextGap := randomInRange GAPS_minIntervalSeconds GAPS_maxIntervalSeconds u\<rparr>
            else g\<lparr>remainingGapTime := remainingGapTime g - dt\<rparr>)"
  using assms by (simp add: updateGap_def GAPS_enabled_def Let_def)

lemma runGap_stays_solid:
  assumes "\<not> isActive g"
    and "\<forall>k\<le>length ts. \<not> isActive (runGap g (take k ts))"
  shows "runGap g ts = g\<lparr>timeUntilNextGap := timeUntilNextGap g - sum_list (map fst ts)\<rparr>
         \<and> (ts \<noteq> [] \<longrightarrow> sum_list (map fst ts) < timeUntilNextGap g)"
  using assms
proof (induction ts arbitrary: g rule: rev_induct)
  case Nil
  show ?case by simp
next
  case (snoc t ts)
  obtain dt u where t: "t = (dt, u)" by (cases t)
  have pre: "\<forall>k\<le>length ts. \<not> isActive (runGap g (take k ts))"
  proof (intro allI impI)
    fix k assume "k \<le> length ts"
    with snoc.prems(2) [rule_format, of k] show "\<not> isActive (runGap g (take k ts))" by simp
  qed
  from snoc.IH [OF snoc.prems(1) pre]
  have r: "runGap g ts = g\<lparr>timeUntilNextGap := timeUntilNextGap g - sum_list (map fst ts)\<rparr>"
    by simp
  from snoc.prems(2) [rule_format, of "length (ts @ [t])"]
  have na: "\<not> isActive (updateGap (runGap g ts) dt u)" by (simp add: runGap_snoc t)
  have s: "\<not> isActive (runGap g ts)" using r snoc.prems(1) by simp
  from na show ?case
    by (simp add: runGap_snoc r updateGap_solid snoc.prems(1) t split: if_splits)
qed

lemma runGap_stays_active:
  assumes "isActive g"
    and "\<forall>k\<le>length ts. isActive (runGap g (take k ts))"
  shows "runGap g ts = g\<lparr>remainingGapTime := remainingGapTime g - sum_list (map fst ts)\<rparr>
         \<and> (ts \<noteq> [] \<longrightarrow> sum_list (map fst ts) < remainingGapTime g)"
  using assms
proof (induction ts arbitrary: g rule: rev_induct)
  case Nil
  show ?case by simp
next
  case (snoc t ts)
  obtain dt u where t: "t = (dt, u)" by (cases t)
  have pre: "\<forall>k\<le>length ts. isActive (runGap g (take k ts))"
  proof (intro allI impI)
    fix k assume "k \<le> length ts"
    with snoc.prems(2) [rule_format, of k] show "isActive (runGap g (take k ts))" by simp
  qed
  from snoc.IH [OF snoc.prems(1) pre]
  have r: "runGap g ts = g\<lparr>remainingGapTime := remainingGapTime g - sum_list (map fst ts)\<rparr>"
    by simp
  from snoc.prems(2) [rule_format, of "length (ts @ [t])"]
  have na: "isActive (updateGap (runGap g ts) dt u)" by (simp add: runGap_snoc t)
  from na show ?case
    by (simp add: runGap_snoc r updateGap_active snoc.prems(1) t split: if_splits)
qed

lemma solid_phase_bounds:
  assumes "\<not> isActive g" and "0 < timeUntilNextGap g"
    and "\<forall>k\<le>length ts. \<not> isActive (runGap g (take k ts))"
    and "isActive (updateGap (runGap g ts) dt u)"
  shows "sum_list (map fst ts) < timeUntilNextGap g
         \<and> timeUntilNextGap g \<le> sum_list (map fst ts) + dt"
proof -
  from runGap_stays_solid [OF assms(1,3)]
  have r: "runGap g ts = g\<lparr>timeUntilNextGap := timeUntilNextGap g - sum_list (map fst ts)\<rparr>"
    and l: "ts \<noteq> [] \<longrightarrow> sum_list (map fst ts) < timeUntilNextGap g"
    by simp_all
  from l assms(2) have "sum_list (map fst ts) < timeUntilNextGap g"
    by (cases ts) auto
  moreover from assms(4) have "timeUntilNextGap g - sum_list (map fst ts) - dt \<le> 0"
    by (simp add: r updateGap_solid assms(1) split: if_splits)
  ultimately show ?thesis by simp
qed

lemma gap_phase_bounds:
  assumes "isActive g" and "0 < remainingGapTime g"
    and "\<forall>k\<le>length ts. isActive (runGap g (take k ts))"
    and "\<not> isActive (updateGap (runGap g ts) dt u)"
  shows "sum_list (map fst ts) < remainingGapTime g
         \<and> remainingGapTime g \<le> sum_list (map fst ts) + dt"
proof -
  from runGap_stays_active [OF assms(1,3)]
  have r: "runGap g ts = g\<lparr>remainingGapTime := remainingGapTime g - sum_list (map fst ts)\<rparr>"
    and l: "ts \<noteq> [] \<longrightarrow> sum_list (map fst ts) < remainingGapTime g"
    by simp_all
  from l assms(2) have "sum_list (map fst ts) < remainingGapTime g"
    by (cases ts) auto
  moreover from assms(4) have "remainingGapTime g - sum_list (map fst ts) - dt \<le> 0"
    by (simp add: r updateGap_active assms(1) split: if_splits)
  ultimately show ?thesis by simp
qed

lemma interval_draw:
  assumes "0 \<le> u" "u < 1"
  shows "GAPS_minIntervalSeconds \<le> randomInRange GAPS_minIntervalSeconds GAPS_maxIntervalSeconds u"
    and "randomInRange GAPS_minIntervalSeconds GAPS_maxIntervalSeconds u < GAPS_maxIntervalSeconds"
  using randomInRange_bounds [OF assms, of GAPS_minIntervalSeconds GAPS_maxIntervalSeconds]
  by (simp_all add: GAPS_minIntervalSeconds_def GAPS_maxIntervalSeconds_def)

lemma duration_draw:
  assumes "0 \<le> u" "u < 1"
  shows "GAPS_minDurationSeconds \<le> randomInRange GAPS_minDurationSeconds GAPS_maxDurationSeconds u"
    and "randomInRange GAPS_minDurationSeconds GAPS_maxDurationSeconds u < GAPS_maxDurationSeconds"
  using randomInRange_bounds [OF assms, of GAPS_minDurationSeconds GAPS_maxDurationSeconds]
  by (simp_all add: GAPS_minDurationSeconds_def GAPS_maxDurationSeconds_def)

text \<open>
  Claim C5, amended. The timer is decremented once per call, so a phase ends at the
  first call at which the delta times fed to \<^verbatim>\<open>updateGap\<close> in that phase reach the
  number drawn for it. For the first Solid phase, begun by \<^verbatim>\<open>initGapState\<close>: the delta
  times of the calls that stay Solid sum to less than \<open>maxIntervalSeconds\<close>, and
  together with the delta time of the call that opens the gap they sum to at least
  \<open>minIntervalSeconds\<close>. For every Gap phase: the delta times of the calls that stay in
  the gap sum to less than \<open>maxDurationSeconds\<close>, and together with the delta time of
  the call that closes the gap to at least \<open>minDurationSeconds\<close>. One call changes the
  phase at most once: it leaves Solid exactly when the countdown reaches 0 or less and
  leaves Gap exactly when the remaining gap time does.
\<close>

theorem gap_phases_reach_their_draw:
  assumes "0 \<le> u0" and "u0 < 1"
  shows "(\<forall>ts dt u.
            (\<forall>k\<le>length ts. \<not> isActive (runGap (initGapState u0) (take k ts)))
            \<and> isActive (updateGap (runGap (initGapState u0) ts) dt u)
            \<longrightarrow> GAPS_minIntervalSeconds \<le> sum_list (map fst ts) + dt
                \<and> sum_list (map fst ts) < GAPS_maxIntervalSeconds)
       \<and> (\<forall>g dt0 ts dt u.
            \<not> isActive g \<and> isActive (updateGap g dt0 u0)
            \<and> (\<forall>k\<le>length ts. isActive (runGap (updateGap g dt0 u0) (take k ts)))
            \<and> \<not> isActive (updateGap (runGap (updateGap g dt0 u0) ts) dt u)
            \<longrightarrow> GAPS_minDurationSeconds \<le> sum_list (map fst ts) + dt
                \<and> sum_list (map fst ts) < GAPS_maxDurationSeconds)
       \<and> (\<forall>g dt.
            isActive (updateGap g dt u0) = (if isActive g then \<not> remainingGapTime g - dt \<le> 0
                                           else timeUntilNextGap g - dt \<le> 0))"
proof (intro conjI allI impI)
  fix ts dt u
  assume h: "(\<forall>k\<le>length ts. \<not> isActive (runGap (initGapState u0) (take k ts)))
             \<and> isActive (updateGap (runGap (initGapState u0) ts) dt u)"
  let ?g = "initGapState u0"
  have T: "timeUntilNextGap ?g = randomInRange GAPS_minIntervalSeconds GAPS_maxIntervalSeconds u0"
    and s: "\<not> isActive ?g"
    by (simp_all add: initGapState_def)
  from interval_draw [OF assms] T
  have lo: "GAPS_minIntervalSeconds \<le> timeUntilNextGap ?g"
    and hi: "timeUntilNextGap ?g < GAPS_maxIntervalSeconds" by simp_all
  from lo have pos: "0 < timeUntilNextGap ?g" by (simp add: GAPS_minIntervalSeconds_def)
  from solid_phase_bounds [OF s pos] h
  have "sum_list (map fst ts) < timeUntilNextGap ?g
        \<and> timeUntilNextGap ?g \<le> sum_list (map fst ts) + dt" by blast
  with lo hi show "GAPS_minIntervalSeconds \<le> sum_list (map fst ts) + dt"
    and "sum_list (map fst ts) < GAPS_maxIntervalSeconds" by simp_all
next
  fix g dt0 ts dt u
  assume h: "\<not> isActive g \<and> isActive (updateGap g dt0 u0)
            \<and> (\<forall>k\<le>length ts. isActive (runGap (updateGap g dt0 u0) (take k ts)))
            \<and> \<not> isActive (updateGap (runGap (updateGap g dt0 u0) ts) dt u)"
  let ?g = "updateGap g dt0 u0"
  from h have ng: "\<not> isActive g" and a: "isActive ?g" by blast+
  from a ng have D: "remainingGapTime ?g = randomInRange GAPS_minDurationSeconds GAPS_maxDurationSeconds u0"
    by (simp add: updateGap_solid [OF ng] split: if_splits)
  from duration_draw [OF assms] D
  have lo: "GAPS_minDurationSeconds \<le> remainingGapTime ?g"
    and hi: "remainingGapTime ?g < GAPS_maxDurationSeconds" by simp_all
  from lo have pos: "0 < remainingGapTime ?g" by (simp add: GAPS_minDurationSeconds_def)
  from gap_phase_bounds [OF a pos] h
  have "sum_list (map fst ts) < remainingGapTime ?g
        \<and> remainingGapTime ?g \<le> sum_list (map fst ts) + dt" by blast
  with lo hi show "GAPS_minDurationSeconds \<le> sum_list (map fst ts) + dt"
    and "sum_list (map fst ts) < GAPS_maxDurationSeconds" by simp_all
next
  fix g dt
  show "isActive (updateGap g dt u0) = (if isActive g then \<not> remainingGapTime g - dt \<le> 0
                                           else timeUntilNextGap g - dt \<le> 0)"
    by (simp add: updateGap_def GAPS_enabled_def Let_def)
qed

theorem gap_phases_reach_their_draw_witness:
  "(0::real) \<le> 0 \<and> (0::real) < 1
   \<and> \<not> isActive (runGap (initGapState 0) [(1, 0)])
   \<and> isActive (updateGap (runGap (initGapState 0) [(1, 0)]) 1 0)
   \<and> GAPS_minIntervalSeconds \<le> sum_list (map fst [(1, 0 :: real)]) + 1
   \<and> sum_list (map fst [(1, 0 :: real)]) < GAPS_maxIntervalSeconds"
proof -
  have a: "\<forall>k\<le>length [(1::real, 0::real)]. \<not> isActive (runGap (initGapState 0) (take k [(1, 0)]))"
  proof (intro allI impI)
    fix k :: nat assume "k \<le> length [(1::real, 0::real)]"
    then have "k = 0 \<or> k = 1" by auto
    then show "\<not> isActive (runGap (initGapState 0) (take k [(1, 0)]))"
      by (auto simp: initGapState_def updateGap_def randomInRange_def GAPS_enabled_def
          GAPS_minIntervalSeconds_def GAPS_maxIntervalSeconds_def Let_def)
  qed
  have b: "isActive (updateGap (runGap (initGapState 0) [(1, 0)]) 1 0)"
    by (simp add: initGapState_def updateGap_def randomInRange_def GAPS_enabled_def
          GAPS_minIntervalSeconds_def GAPS_maxIntervalSeconds_def Let_def)
  have p: "(0::real) \<le> 0" "(0::real) < 1" by simp_all
  from gap_phases_reach_their_draw [OF p, THEN conjunct1, rule_format, of "[(1, 0)]" 1 0,
      OF conjI [OF a b]]
  have "GAPS_minIntervalSeconds \<le> sum_list (map fst [(1, 0 :: real)]) + 1
        \<and> sum_list (map fst [(1, 0 :: real)]) < GAPS_maxIntervalSeconds" .
  moreover from a have "\<not> isActive (runGap (initGapState 0) [(1, 0)])"
    by (simp add: initGapState_def updateGap_def randomInRange_def GAPS_enabled_def
          GAPS_minIntervalSeconds_def GAPS_maxIntervalSeconds_def Let_def)
  ultimately show ?thesis using b by simp
qed

text \<open>
  The upper bound of the claim as stated fails: from \<^verbatim>\<open>initGapState\<close> with the draw 0
  (a countdown of 1.2 s), one call with a delta time of 5 s opens the gap, and the
  delta time accumulated in Solid is 5 s, more than \<open>maxIntervalSeconds\<close>.
\<close>

theorem solid_phase_overshoot_counterexample:
  "\<not> isActive (initGapState 0)
   \<and> (0::real) \<le> 5
   \<and> isActive (updateGap (initGapState 0) 5 0)
   \<and> \<not> (5 \<le> GAPS_maxIntervalSeconds)"
  by (simp add: initGapState_def updateGap_def randomInRange_def GAPS_enabled_def
      GAPS_minIntervalSeconds_def GAPS_maxIntervalSeconds_def Let_def)

section \<open>Restarting the round\<close>

lemma set_occupancy_createTrailMask: "\<forall>v\<in>set (occupancy (createTrailMask w h)). v = 0"
  by (simp add: createTrailMask_def)

lemma cellAt_createTrailMask_zero:
  "cellAt (createTrailMask w h) x y = Some v \<Longrightarrow> v = 0"
  by (auto simp: cellAt_def createTrailMask_def readOcc_def split: if_splits)

text \<open>
  Claim C2, amended. The restart key calls \<^verbatim>\<open>resetRound\<close> in every state, the Ended
  state included. After it both players' scores are 0 and both players are alive, the
  round is neither moving nor ended, and the mask is the all-zero mask of
  \<^verbatim>\<open>createTrailMask\<close> with the two spawn circles stamped on it: every occupied cell of
  the grid lies within the dot radius of one of the two rounded spawn positions.
\<close>

theorem resetRound_resets_and_stamps_spawns:
  assumes "s' = resetRound s w h u1x u1y u2x u2y g1 g2"
    and "c1x = real_of_int (js_round (vx (positionPixels (playerOne s'))))"
    and "c1y = real_of_int (js_round (vy (positionPixels (playerOne s'))))"
    and "c2x = real_of_int (js_round (vx (positionPixels (playerTwo s'))))"
    and "c2y = real_of_int (js_round (vy (positionPixels (playerTwo s'))))"
  shows "handleKeyDown s ''r'' w h u1x u1y u2x u2y g1 g2 = s'
       \<and> scoreSeconds (playerOne s') = 0 \<and> scoreSeconds (playerTwo s') = 0
       \<and> isAlive (playerOne s') \<and> isAlive (playerTwo s')
       \<and> \<not> isMoving s' \<and> \<not> hasRoundEnded s'
       \<and> (\<forall>v\<in>set (occupancy (createTrailMask w h)). v = 0)
       \<and> trailMask s' = markVisitedCircle
                          (markVisitedCircle (createTrailMask w h) c1x c1y DOT_radiusPixels)
                          c2x c2y DOT_radiusPixels
       \<and> (\<forall>x y. 0 \<le> x \<and> x < int w \<and> cellAt (trailMask s') x y = Some 1 \<longrightarrow>
             distSq c1x c1y x y \<le> DOT_radiusPixels * DOT_radiusPixels
             \<or> distSq c2x c2y x y \<le> DOT_radiusPixels * DOT_radiusPixels)"
proof -
  have pos: "positionPixels (playerOne s') =
          \<lparr>vx = 10 + u1x * (real w - 20), vy = 10 + u1y * (real h - 20)\<rparr>"
       "positionPixels (playerTwo s') =
          \<lparr>vx = 10 + u2x * (real w - 20), vy = 10 + u2y * (real h - 20)\<rparr>"
    by (simp_all add: assms(1) resetRound_def Let_def DOT_radiusPixels_def
        BORDER_thicknessPixels_def BORDER_insetPixels_def)
  have m: "trailMask s' = markVisitedCircle
             (markVisitedCircle (createTrailMask w h) c1x c1y DOT_radiusPixels)
             c2x c2y DOT_radiusPixels"
    unfolding assms(2-5) pos
    by (simp add: assms(1) resetRound_def Let_def DOT_radiusPixels_def
        BORDER_thicknessPixels_def BORDER_insetPixels_def)
  have cells: "distSq c1x c1y x y \<le> DOT_radiusPixels * DOT_radiusPixels
             \<or> distSq c2x c2y x y \<le> DOT_radiusPixels * DOT_radiusPixels"
    if "0 \<le> x \<and> x < int w \<and> cellAt (trailMask s') x y = Some 1" for x y
  proof -
    let ?m0 = "createTrailMask w h"
    let ?m1 = "markVisitedCircle ?m0 c1x c1y DOT_radiusPixels"
    have w0: "widthPixels ?m0 = w" by (simp add: createTrailMask_def)
    from that have x: "0 \<le> x" "x < int (widthPixels ?m1)" "x < int (widthPixels ?m0)"
      by (simp_all add: w0)
    from that have c: "cellAt (markVisitedCircle ?m1 c2x c2y DOT_radiusPixels) x y = Some 1"
      by (simp add: m)
    show ?thesis
    proof (rule ccontr)
      assume n: "\<not> ?thesis"
      with c x have "cellAt ?m1 x y = Some 1"
        by (simp add: cellAt_markVisitedCircle split: if_splits)
      with n x have "cellAt ?m0 x y = Some 1"
        by (simp add: cellAt_markVisitedCircle split: if_splits)
      then show False by (simp add: cellAt_createTrailMask)
    qed
  qed
  have rest: "handleKeyDown s ''r'' w h u1x u1y u2x u2y g1 g2 = s'"
    "scoreSeconds (playerOne s') = 0" "scoreSeconds (playerTwo s') = 0"
    "isAlive (playerOne s')" "isAlive (playerTwo s')" "\<not> isMoving s'" "\<not> hasRoundEnded s'"
    by (simp_all add: assms(1) handleKeyDown_def resetRound_def Let_def)
  from rest m cells set_occupancy_createTrailMask show ?thesis by blast
qed

theorem resetRound_resets_and_stamps_spawns_witness:
  "hasRoundEnded ((initialRound 0 0 0)\<lparr>hasRoundEnded := True\<rparr>)
   \<and> scoreSeconds (playerOne (resetRound ((initialRound 0 0 0)\<lparr>hasRoundEnded := True\<rparr>)
         30 30 0 0 (1 / 2) (1 / 2) 0 0)) = 0
   \<and> scoreSeconds (playerTwo (resetRound ((initialRound 0 0 0)\<lparr>hasRoundEnded := True\<rparr>)
         30 30 0 0 (1 / 2) (1 / 2) 0 0)) = 0
   \<and> isAlive (playerOne (resetRound ((initialRound 0 0 0)\<lparr>hasRoundEnded := True\<rparr>)
         30 30 0 0 (1 / 2) (1 / 2) 0 0))
   \<and> isAlive (playerTwo (resetRound ((initialRound 0 0 0)\<lparr>hasRoundEnded := True\<rparr>)
         30 30 0 0 (1 / 2) (1 / 2) 0 0))
   \<and> trailMask (resetRound ((initialRound 0 0 0)\<lparr>hasRoundEnded := True\<rparr>)
         30 30 0 0 (1 / 2) (1 / 2) 0 0)
       = markVisitedCircle (markVisitedCircle (createTrailMask 30 30) 10 10 DOT_radiusPixels)
           15 15 DOT_radiusPixels"
proof -
  let ?s = "(initialRound 0 0 0)\<lparr>hasRoundEnded := True\<rparr>"
  let ?s' = "resetRound ?s 30 30 0 0 (1 / 2) (1 / 2) 0 0"
  have c: "10 = real_of_int (js_round (vx (positionPixels (playerOne ?s'))))"
       "10 = real_of_int (js_round (vy (positionPixels (playerOne ?s'))))"
       "15 = real_of_int (js_round (vx (positionPixels (playerTwo ?s'))))"
       "15 = real_of_int (js_round (vy (positionPixels (playerTwo ?s'))))"
    by code_simp+
  have e: "hasRoundEnded ?s" by simp
  from resetRound_resets_and_stamps_spawns [OF refl c] e show ?thesis by blast
qed

text \<open>
  The claim as stated, a mask with no occupied cell after the restart, fails: on a 30 by
  30 window with the draws 0 and 1/2, the restart from the Ended state spawns player
  one at (10, 10) and \<^verbatim>\<open>resetRound\<close> stamps that cell before it returns.
\<close>

theorem restart_mask_not_empty_counterexample:
  "hasRoundEnded ((initialRound 0 0 0)\<lparr>hasRoundEnded := True\<rparr>)
   \<and> cellAt (trailMask (resetRound ((initialRound 0 0 0)\<lparr>hasRoundEnded := True\<rparr>)
         30 30 0 0 (1 / 2) (1 / 2) 0 0)) 10 10 = Some 1
   \<and> 1 \<in> set (occupancy (trailMask (resetRound ((initialRound 0 0 0)\<lparr>hasRoundEnded := True\<rparr>)
         30 30 0 0 (1 / 2) (1 / 2) 0 0)))"
proof -
  have "cellAt (trailMask (resetRound ((initialRound 0 0 0)\<lparr>hasRoundEnded := True\<rparr>)
         30 30 0 0 (1 / 2) (1 / 2) 0 0)) 10 10 = Some 1"
    by code_simp
  moreover have "1 \<in> set (occupancy (trailMask (resetRound ((initialRound 0 0 0)\<lparr>hasRoundEnded := True\<rparr>)
         30 30 0 0 (1 / 2) (1 / 2) 0 0)))"
    by code_simp
  ultimately show ?thesis by simp
qed

section \<open>A player's block of the tick\<close>

lemma Vector2D_eta [simp]: "\<lparr>vx = vx c, vy = vy c\<rparr> = (c :: Vector2D)"
  by (cases c) simp

lemma resolvePlayer_dead:
  "\<not> isAlive me \<Longrightarrow> resolvePlayer dt w h trail me oc = (trail, me)"
  by (simp add: resolvePlayer_def)

lemma resolvePlayer_border:
  assumes "isAlive me"
    and "hitsBorder (vx (candidate dt me)) (vy (candidate dt me)) w h DOT_radiusPixels"
  shows "resolvePlayer dt w h trail me oc = (trail, me\<lparr>isAlive := False\<rparr>)"
  using assms by (simp add: resolvePlayer_def Let_def)

lemma resolvePlayer_collides:
  assumes "isAlive me"
    and "\<not> hitsBorder (vx (candidate dt me)) (vy (candidate dt me)) w h DOT_radiusPixels"
    and "collidesWithTrailExcludingPoints trail
           \<lparr>vx = real_of_int (js_round (vx (candidate dt me))),
            vy = real_of_int (js_round (vy (candidate dt me)))\<rparr>
           DOT_radiusPixels (recentPositions me @ gapCorridor me @ oc)
           (max TRAIL_extraIgnoreMarginPixels GAPS_corridorExtraMarginPixels)"
  shows "resolvePlayer dt w h trail me oc = (trail, me\<lparr>isAlive := False\<rparr>)"
  using assms by (simp add: resolvePlayer_def Let_def)

lemma resolvePlayer_moves:
  assumes "isAlive me"
    and "\<not> hitsBorder (vx (candidate dt me)) (vy (candidate dt me)) w h DOT_radiusPixels"
    and "\<not> collidesWithTrailExcludingPoints trail
           \<lparr>vx = real_of_int (js_round (vx (candidate dt me))),
            vy = real_of_int (js_round (vy (candidate dt me)))\<rparr>
           DOT_radiusPixels (recentPositions me @ gapCorridor me @ oc)
           (max TRAIL_extraIgnoreMarginPixels GAPS_corridorExtraMarginPixels)"
    and "q = \<lparr>vx = real_of_int (js_round (vx (candidate dt me))),
              vy = real_of_int (js_round (vy (candidate dt me)))\<rparr>"
  shows "resolvePlayer dt w h trail me oc =
           (if \<not> isActive (gap me)
            then (markVisitedCircle trail (vx q) (vy q) DOT_radiusPixels,
                  (pushRecent (me\<lparr>positionPixels := candidate dt me\<rparr>) q)
                    \<lparr>scoreSeconds := scoreSeconds me + dt\<rparr>)
            else (trail,
                  (pushGapCorridor (me\<lparr>positionPixels := candidate dt me\<rparr>) q)
                    \<lparr>scoreSeconds := scoreSeconds me + dt\<rparr>))"
  using assms by (simp add: resolvePlayer_def Let_def)

lemma resolvePlayer_alive_iff:
  assumes "isAlive me"
    and "\<not> hitsBorder (vx (candidate dt me)) (vy (candidate dt me)) w h DOT_radiusPixels"
  shows "isAlive (snd (resolvePlayer dt w h trail me oc)) \<longleftrightarrow>
         \<not> collidesWithTrailExcludingPoints trail
           \<lparr>vx = real_of_int (js_round (vx (candidate dt me))),
            vy = real_of_int (js_round (vy (candidate dt me)))\<rparr>
           DOT_radiusPixels (recentPositions me @ gapCorridor me @ oc)
           (max TRAIL_extraIgnoreMarginPixels GAPS_corridorExtraMarginPixels)"
proof (cases "collidesWithTrailExcludingPoints trail
           \<lparr>vx = real_of_int (js_round (vx (candidate dt me))),
            vy = real_of_int (js_round (vy (candidate dt me)))\<rparr>
           DOT_radiusPixels (recentPositions me @ gapCorridor me @ oc)
           (max TRAIL_extraIgnoreMarginPixels GAPS_corridorExtraMarginPixels)")
  case True
  from resolvePlayer_collides [OF assms True] True show ?thesis by simp
next
  case False
  from resolvePlayer_moves [OF assms False refl] False assms(1) show ?thesis by simp
qed

lemma resolvePlayer_alive_position:
  assumes "isAlive me" and "isAlive (snd (resolvePlayer dt w h trail me oc))"
  shows "positionPixels (snd (resolvePlayer dt w h trail me oc)) = candidate dt me"
  using assms by (simp add: resolvePlayer_def Let_def split: if_splits)

lemma hitsBorder_iff:
  "hitsBorder px py w h DOT_radiusPixels \<longleftrightarrow>
     px < BORDER_insetPixels + BORDER_thicknessPixels + DOT_radiusPixels
     \<or> px > w - BORDER_insetPixels - BORDER_thicknessPixels - DOT_radiusPixels
     \<or> py < BORDER_insetPixels + BORDER_thicknessPixels + DOT_radiusPixels
     \<or> py > h - BORDER_insetPixels - BORDER_thicknessPixels - DOT_radiusPixels"
  by (simp add: hitsBorder_def Let_def)

lemma movePlayerOne_simps:
  "playerOne (movePlayerOne s dt w h)
     = snd (resolvePlayer dt (real w) (real h) (trailMask s) (playerOne s) (gapCorridor (playerTwo s)))"
  "trailMask (movePlayerOne s dt w h)
     = fst (resolvePlayer dt (real w) (real h) (trailMask s) (playerOne s) (gapCorridor (playerTwo s)))"
  "playerTwo (movePlayerOne s dt w h) = playerTwo s"
  "isMoving (movePlayerOne s dt w h) = isMoving s"
  "hasRoundEnded (movePlayerOne s dt w h) = hasRoundEnded s"
  by (simp_all add: movePlayerOne_def split_beta)

lemma movePlayerTwo_simps:
  "playerTwo (movePlayerTwo s dt w h)
     = snd (resolvePlayer dt (real w) (real h) (trailMask s) (playerTwo s) (gapCorridor (playerOne s)))"
  "trailMask (movePlayerTwo s dt w h)
     = fst (resolvePlayer dt (real w) (real h) (trailMask s) (playerTwo s) (gapCorridor (playerOne s)))"
  "playerOne (movePlayerTwo s dt w h) = playerOne s"
  "isMoving (movePlayerTwo s dt w h) = isMoving s"
  "hasRoundEnded (movePlayerTwo s dt w h) = hasRoundEnded s"
  by (simp_all add: movePlayerTwo_def split_beta)

text \<open>
  Claim C4, amended. The safe rectangle is the canvas inset by the border's inset, the
  border's thickness and the dot's radius. While a player is alive, a candidate position
  exactly on the boundary of the safe rectangle passes the border check
  (\<^verbatim>\<open>hitsBorder\<close> is false); the player then stays alive exactly when the trail query at
  the rounded candidate finds no collision, and a player who stays alive is at the
  candidate. A candidate one unit beyond the boundary makes \<^verbatim>\<open>hitsBorder\<close> true: the
  player is no longer alive, and its position, its score and the mask are unchanged.
  This holds for the block of player one and for the block of player two.
\<close>

theorem safe_rectangle_boundary:
  assumes "lo = BORDER_insetPixels + BORDER_thicknessPixels + DOT_radiusPixels"
    and "hiX = real w - BORDER_insetPixels - BORDER_thicknessPixels - DOT_radiusPixels"
    and "hiY = real h - BORDER_insetPixels - BORDER_thicknessPixels - DOT_radiusPixels"
    and "c1 = candidate dt (playerOne s)" and "c2 = candidate dt (playerTwo s)"
    and "s1 = movePlayerOne s dt w h" and "s2 = movePlayerTwo s dt w h"
  shows "(isAlive (playerOne s) \<and> lo \<le> vx c1 \<and> vx c1 \<le> hiX \<and> lo \<le> vy c1 \<and> vy c1 \<le> hiY
            \<and> (vx c1 = lo \<or> vx c1 = hiX \<or> vy c1 = lo \<or> vy c1 = hiY) \<longrightarrow>
          \<not> hitsBorder (vx c1) (vy c1) (real w) (real h) DOT_radiusPixels
          \<and> (isAlive (playerOne s1) \<longleftrightarrow>
               \<not> collidesWithTrailExcludingPoints (trailMask s)
                   \<lparr>vx = real_of_int (js_round (vx c1)), vy = real_of_int (js_round (vy c1))\<rparr>
                   DOT_radiusPixels
                   (recentPositions (playerOne s) @ gapCorridor (playerOne s)
                      @ gapCorridor (playerTwo s))
                   (max TRAIL_extraIgnoreMarginPixels GAPS_corridorExtraMarginPixels))
          \<and> (isAlive (playerOne s1) \<longrightarrow> positionPixels (playerOne s1) = c1))
       \<and> (isAlive (playerOne s)
            \<and> (vx c1 = lo - 1 \<or> vx c1 = hiX + 1 \<or> vy c1 = lo - 1 \<or> vy c1 = hiY + 1) \<longrightarrow>
          hitsBorder (vx c1) (vy c1) (real w) (real h) DOT_radiusPixels
          \<and> \<not> isAlive (playerOne s1)
          \<and> positionPixels (playerOne s1) = positionPixels (playerOne s)
          \<and> scoreSeconds (playerOne s1) = scoreSeconds (playerOne s)
          \<and> trailMask s1 = trailMask s)
       \<and> (isAlive (playerTwo s) \<and> lo \<le> vx c2 \<and> vx c2 \<le> hiX \<and> lo \<le> vy c2 \<and> vy c2 \<le> hiY
            \<and> (vx c2 = lo \<or> vx c2 = hiX \<or> vy c2 = lo \<or> vy c2 = hiY) \<longrightarrow>
          \<not> hitsBorder (vx c2) (vy c2) (real w) (real h) DOT_radiusPixels
          \<and> (isAlive (playerTwo s2) \<longleftrightarrow>
               \<not> collidesWithTrailExcludingPoints (trailMask s)
                   \<lparr>vx = real_of_int (js_round (vx c2)), vy = real_of_int (js_round (vy c2))\<rparr>
                   DOT_radiusPixels
                   (recentPositions (playerTwo s) @ gapCorridor (playerTwo s)
                      @ gapCorridor (playerOne s))
                   (max TRAIL_extraIgnoreMarginPixels GAPS_corridorExtraMarginPixels))
          \<and> (isAlive (playerTwo s2) \<longrightarrow> positionPixels (playerTwo s2) = c2))
       \<and> (isAlive (playerTwo s)
            \<and> (vx c2 = lo - 1 \<or> vx c2 = hiX + 1 \<or> vy c2 = lo - 1 \<or> vy c2 = hiY + 1) \<longrightarrow>
          hitsBorder (vx c2) (vy c2) (real w) (real h) DOT_radiusPixels
          \<and> \<not> isAlive (playerTwo s2)
          \<and> positionPixels (playerTwo s2) = positionPixels (playerTwo s)
          \<and> scoreSeconds (playerTwo s2) = scoreSeconds (playerTwo s)
          \<and> trailMask s2 = trailMask s)"
proof -
  have inside: "\<not> hitsBorder (vx c) (vy c) (real w) (real h) DOT_radiusPixels"
    if "lo \<le> vx c \<and> vx c \<le> hiX \<and> lo \<le> vy c \<and> vy c \<le> hiY" for c :: Vector2D
    using that by (simp add: hitsBorder_iff assms(1-3))
  have beyond: "hitsBorder (vx c) (vy c) (real w) (real h) DOT_radiusPixels"
    if "vx c = lo - 1 \<or> vx c = hiX + 1 \<or> vy c = lo - 1 \<or> vy c = hiY + 1" for c :: Vector2D
    using that by (auto simp add: hitsBorder_iff assms(1-3))
  have acc: "\<not> hitsBorder (vx (candidate dt me)) (vy (candidate dt me)) (real w) (real h) DOT_radiusPixels
      \<and> (isAlive (snd (resolvePlayer dt (real w) (real h) trail me oc)) \<longleftrightarrow>
           \<not> collidesWithTrailExcludingPoints trail
               \<lparr>vx = real_of_int (js_round (vx (candidate dt me))),
                vy = real_of_int (js_round (vy (candidate dt me)))\<rparr>
               DOT_radiusPixels (recentPositions me @ gapCorridor me @ oc)
               (max TRAIL_extraIgnoreMarginPixels GAPS_corridorExtraMarginPixels))
      \<and> (isAlive (snd (resolvePlayer dt (real w) (real h) trail me oc)) \<longrightarrow>
           positionPixels (snd (resolvePlayer dt (real w) (real h) trail me oc)) = candidate dt me)"
    if "isAlive me" and "lo \<le> vx (candidate dt me) \<and> vx (candidate dt me) \<le> hiX
          \<and> lo \<le> vy (candidate dt me) \<and> vy (candidate dt me) \<le> hiY"
    for me trail oc
    using inside [OF that(2)] resolvePlayer_alive_iff [OF that(1) inside [OF that(2)]]
      resolvePlayer_alive_position [OF that(1)]
    by blast
  have dead: "hitsBorder (vx (candidate dt me)) (vy (candidate dt me)) (real w) (real h) DOT_radiusPixels
      \<and> resolvePlayer dt (real w) (real h) trail me oc = (trail, me\<lparr>isAlive := False\<rparr>)"
    if "isAlive me" and "vx (candidate dt me) = lo - 1 \<or> vx (candidate dt me) = hiX + 1
          \<or> vy (candidate dt me) = lo - 1 \<or> vy (candidate dt me) = hiY + 1"
    for me trail oc
    using beyond [OF that(2)] resolvePlayer_border [OF that(1) beyond [OF that(2)]]
    by blast
  show ?thesis
  proof (intro conjI impI)
    assume h: "isAlive (playerOne s) \<and> lo \<le> vx c1 \<and> vx c1 \<le> hiX \<and> lo \<le> vy c1 \<and> vy c1 \<le> hiY
            \<and> (vx c1 = lo \<or> vx c1 = hiX \<or> vy c1 = lo \<or> vy c1 = hiY)"
    then have a: "isAlive (playerOne s)"
      and b: "lo \<le> vx (candidate dt (playerOne s)) \<and> vx (candidate dt (playerOne s)) \<le> hiX
          \<and> lo \<le> vy (candidate dt (playerOne s)) \<and> vy (candidate dt (playerOne s)) \<le> hiY"
      by (simp_all add: assms(4))
    note r = acc [OF a b, of "trailMask s" "gapCorridor (playerTwo s)"]
    from r show "\<not> hitsBorder (vx c1) (vy c1) (real w) (real h) DOT_radiusPixels"
      by (simp add: assms(4))
    from r show "isAlive (playerOne s1) \<longleftrightarrow>
               \<not> collidesWithTrailExcludingPoints (trailMask s)
                   \<lparr>vx = real_of_int (js_round (vx c1)), vy = real_of_int (js_round (vy c1))\<rparr>
                   DOT_radiusPixels
                   (recentPositions (playerOne s) @ gapCorridor (playerOne s)
                      @ gapCorridor (playerTwo s))
                   (max TRAIL_extraIgnoreMarginPixels GAPS_corridorExtraMarginPixels)"
      by (simp add: assms(4,6) movePlayerOne_simps)
    assume "isAlive (playerOne s1)"
    with r show "positionPixels (playerOne s1) = c1"
      by (simp add: assms(4,6) movePlayerOne_simps)
  next
    assume h: "isAlive (playerOne s)
            \<and> (vx c1 = lo - 1 \<or> vx c1 = hiX + 1 \<or> vy c1 = lo - 1 \<or> vy c1 = hiY + 1)"
    then have a: "isAlive (playerOne s)"
      and b: "vx (candidate dt (playerOne s)) = lo - 1 \<or> vx (candidate dt (playerOne s)) = hiX + 1
          \<or> vy (candidate dt (playerOne s)) = lo - 1 \<or> vy (candidate dt (playerOne s)) = hiY + 1"
      by (simp_all add: assms(4))
    note r = dead [OF a b, of "trailMask s" "gapCorridor (playerTwo s)"]
    from r show "hitsBorder (vx c1) (vy c1) (real w) (real h) DOT_radiusPixels"
      by (simp add: assms(4))
    from r show "\<not> isAlive (playerOne s1)"
      "positionPixels (playerOne s1) = positionPixels (playerOne s)"
      "scoreSeconds (playerOne s1) = scoreSeconds (playerOne s)"
      "trailMask s1 = trailMask s"
      by (simp_all add: assms(6) movePlayerOne_simps)
  next
    assume h: "isAlive (playerTwo s) \<and> lo \<le> vx c2 \<and> vx c2 \<le> hiX \<and> lo \<le> vy c2 \<and> vy c2 \<le> hiY
            \<and> (vx c2 = lo \<or> vx c2 = hiX \<or> vy c2 = lo \<or> vy c2 = hiY)"
    then have a: "isAlive (playerTwo s)"
      and b: "lo \<le> vx (candidate dt (playerTwo s)) \<and> vx (candidate dt (playerTwo s)) \<le> hiX
          \<and> lo \<le> vy (candidate dt (playerTwo s)) \<and> vy (candidate dt (playerTwo s)) \<le> hiY"
      by (simp_all add: assms(5))
    note r = acc [OF a b, of "trailMask s" "gapCorridor (playerOne s)"]
    from r show "\<not> hitsBorder (vx c2) (vy c2) (real w) (real h) DOT_radiusPixels"
      by (simp add: assms(5))
    from r show "isAlive (playerTwo s2) \<longleftrightarrow>
               \<not> collidesWithTrailExcludingPoints (trailMask s)
                   \<lparr>vx = real_of_int (js_round (vx c2)), vy = real_of_int (js_round (vy c2))\<rparr>
                   DOT_radiusPixels
                   (recentPositions (playerTwo s) @ gapCorridor (playerTwo s)
                      @ gapCorridor (playerOne s))
                   (max TRAIL_extraIgnoreMarginPixels GAPS_corridorExtraMarginPixels)"
      by (simp add: assms(5,7) movePlayerTwo_simps)
    assume "isAlive (playerTwo s2)"
    with r show "positionPixels (playerTwo s2) = c2"
      by (simp add: assms(5,7) movePlayerTwo_simps)
  next
    assume h: "isAlive (playerTwo s)
            \<and> (vx c2 = lo - 1 \<or> vx c2 = hiX + 1 \<or> vy c2 = lo - 1 \<or> vy c2 = hiY + 1)"
    then have a: "isAlive (playerTwo s)"
      and b: "vx (candidate dt (playerTwo s)) = lo - 1 \<or> vx (candidate dt (playerTwo s)) = hiX + 1
          \<or> vy (candidate dt (playerTwo s)) = lo - 1 \<or> vy (candidate dt (playerTwo s)) = hiY + 1"
      by (simp_all add: assms(5))
    note r = dead [OF a b, of "trailMask s" "gapCorridor (playerOne s)"]
    from r show "hitsBorder (vx c2) (vy c2) (real w) (real h) DOT_radiusPixels"
      by (simp add: assms(5))
    from r show "\<not> isAlive (playerTwo s2)"
      "positionPixels (playerTwo s2) = positionPixels (playerTwo s)"
      "scoreSeconds (playerTwo s2) = scoreSeconds (playerTwo s)"
      "trailMask s2 = trailMask s"
      by (simp_all add: assms(7) movePlayerTwo_simps)
  qed
qed

lemma candidate_angle_zero:
  "angleRadians p = 0 \<Longrightarrow>
   candidate dt p = \<lparr>vx = vx (positionPixels p) + 80 * dt, vy = vy (positionPixels p)\<rparr>"
  by (simp add: candidate_def advance_def PHYSICS_forwardSpeedPixelsPerSecond_def)

theorem safe_rectangle_boundary_witness:
  "isAlive (playerOne ((initialRound 0 0 0)
      \<lparr>trailMask := createTrailMask 30 30,
       playerOne := (playerOne (initialRound 0 0 0))
         \<lparr>positionPixels := \<lparr>vx = 10, vy = 15\<rparr>, recentPositions := [\<lparr>vx = 10, vy = 15\<rparr>]\<rparr>\<rparr>))
   \<and> candidate (1 / 8) (playerOne ((initialRound 0 0 0)
      \<lparr>trailMask := createTrailMask 30 30,
       playerOne := (playerOne (initialRound 0 0 0))
         \<lparr>positionPixels := \<lparr>vx = 10, vy = 15\<rparr>, recentPositions := [\<lparr>vx = 10, vy = 15\<rparr>]\<rparr>\<rparr>))
       = \<lparr>vx = 20, vy = 15\<rparr>
   \<and> (20::real) = real 30 - BORDER_insetPixels - BORDER_thicknessPixels - DOT_radiusPixels
   \<and> isAlive (playerOne (movePlayerOne ((initialRound 0 0 0)
      \<lparr>trailMask := createTrailMask 30 30,
       playerOne := (playerOne (initialRound 0 0 0))
         \<lparr>positionPixels := \<lparr>vx = 10, vy = 15\<rparr>, recentPositions := [\<lparr>vx = 10, vy = 15\<rparr>]\<rparr>\<rparr>)
      (1 / 8) 30 30))
   \<and> positionPixels (playerOne (movePlayerOne ((initialRound 0 0 0)
      \<lparr>trailMask := createTrailMask 30 30,
       playerOne := (playerOne (initialRound 0 0 0))
         \<lparr>positionPixels := \<lparr>vx = 10, vy = 15\<rparr>, recentPositions := [\<lparr>vx = 10, vy = 15\<rparr>]\<rparr>\<rparr>)
      (1 / 8) 30 30)) = \<lparr>vx = 20, vy = 15\<rparr>"
proof -
  let ?p = "(playerOne (initialRound 0 0 0))
         \<lparr>positionPixels := \<lparr>vx = 10, vy = 15\<rparr>, recentPositions := [\<lparr>vx = 10, vy = 15\<rparr>]\<rparr>"
  let ?s = "(initialRound 0 0 0)\<lparr>trailMask := createTrailMask 30 30, playerOne := ?p\<rparr>"
  have p: "playerOne ?s = ?p" by simp
  have al: "isAlive (playerOne ?s)" by (simp add: initialRound_def)
  have c: "candidate (1 / 8) (playerOne ?s) = \<lparr>vx = 20, vy = 15\<rparr>"
    by (simp add: candidate_angle_zero initialRound_def)
  have hi: "(20::real) = real 30 - BORDER_insetPixels - BORDER_thicknessPixels - DOT_radiusPixels"
    and lo: "(10::real) = BORDER_insetPixels + BORDER_thicknessPixels + DOT_radiusPixels"
    by (simp_all add: BORDER_insetPixels_def BORDER_thicknessPixels_def DOT_radiusPixels_def)
  have r: "js_round 20 = 20" "js_round 15 = 15" by (simp_all add: js_round_def)
  have nc: "\<not> collidesWithTrailExcludingPoints (createTrailMask 30 30) \<lparr>vx = 20, vy = 15\<rparr>
              DOT_radiusPixels [\<lparr>vx = 10, vy = 15\<rparr>]
              (max TRAIL_extraIgnoreMarginPixels GAPS_corridorExtraMarginPixels)"
    by code_simp
  note t = safe_rectangle_boundary [OF lo hi hi c [symmetric] refl refl refl, THEN conjunct1]
  from t al have "isAlive (playerOne (movePlayerOne ?s (1 / 8) 30 30)) \<longleftrightarrow>
      \<not> collidesWithTrailExcludingPoints (trailMask ?s)
          \<lparr>vx = real_of_int (js_round 20), vy = real_of_int (js_round 15)\<rparr>
          DOT_radiusPixels
          (recentPositions (playerOne ?s) @ gapCorridor (playerOne ?s) @ gapCorridor (playerTwo ?s))
          (max TRAIL_extraIgnoreMarginPixels GAPS_corridorExtraMarginPixels)"
    by simp
  moreover have "recentPositions (playerOne ?s) @ gapCorridor (playerOne ?s) @ gapCorridor (playerTwo ?s)
      = [\<lparr>vx = 10, vy = 15\<rparr>]"
    by (simp add: initialRound_def)
  ultimately have a': "isAlive (playerOne (movePlayerOne ?s (1 / 8) 30 30))"
    using nc by (simp add: r)
  with t al have "positionPixels (playerOne (movePlayerOne ?s (1 / 8) 30 30)) = \<lparr>vx = 20, vy = 15\<rparr>"
    by simp
  with al c hi a' show ?thesis by blast
qed

text \<open>
  The claim as stated, that a candidate on the boundary is accepted and the player stays
  alive, fails when trail lies there: on a 30 by 30 canvas player one moves from (10, 15)
  to the candidate (20, 15) on the right edge of the safe rectangle, the border check
  passes, the mask holds a stamp at (20, 15) that no ignored point covers, and the
  player dies.
\<close>

theorem trail_on_boundary_counterexample:
  "isAlive (playerOne ((initialRound 0 0 0)
      \<lparr>trailMask := markVisitedCircle (createTrailMask 30 30) 20 15 2,
       playerOne := (playerOne (initialRound 0 0 0))
         \<lparr>positionPixels := \<lparr>vx = 10, vy = 15\<rparr>, recentPositions := [\<lparr>vx = 10, vy = 15\<rparr>]\<rparr>\<rparr>))
   \<and> candidate (1 / 8) (playerOne ((initialRound 0 0 0)
      \<lparr>trailMask := markVisitedCircle (createTrailMask 30 30) 20 15 2,
       playerOne := (playerOne (initialRound 0 0 0))
         \<lparr>positionPixels := \<lparr>vx = 10, vy = 15\<rparr>, recentPositions := [\<lparr>vx = 10, vy = 15\<rparr>]\<rparr>\<rparr>))
       = \<lparr>vx = 20, vy = 15\<rparr>
   \<and> (20::real) = real 30 - BORDER_insetPixels - BORDER_thicknessPixels - DOT_radiusPixels
   \<and> \<not> hitsBorder 20 15 (real 30) (real 30) DOT_radiusPixels
   \<and> \<not> isAlive (playerOne (movePlayerOne ((initialRound 0 0 0)
      \<lparr>trailMask := markVisitedCircle (createTrailMask 30 30) 20 15 2,
       playerOne := (playerOne (initialRound 0 0 0))
         \<lparr>positionPixels := \<lparr>vx = 10, vy = 15\<rparr>, recentPositions := [\<lparr>vx = 10, vy = 15\<rparr>]\<rparr>\<rparr>)
      (1 / 8) 30 30))"
proof -
  let ?p = "(playerOne (initialRound 0 0 0))
         \<lparr>positionPixels := \<lparr>vx = 10, vy = 15\<rparr>, recentPositions := [\<lparr>vx = 10, vy = 15\<rparr>]\<rparr>"
  let ?m = "markVisitedCircle (createTrailMask 30 30) 20 15 2"
  let ?s = "(initialRound 0 0 0)\<lparr>trailMask := ?m, playerOne := ?p\<rparr>"
  have al: "isAlive ?p" by (simp add: initialRound_def)
  have c: "candidate (1 / 8) ?p = \<lparr>vx = 20, vy = 15\<rparr>"
    by (simp add: candidate_angle_zero initialRound_def)
  have hi: "(20::real) = real 30 - BORDER_insetPixels - BORDER_thicknessPixels - DOT_radiusPixels"
    by (simp add: BORDER_insetPixels_def BORDER_thicknessPixels_def DOT_radiusPixels_def)
  have nb: "\<not> hitsBorder 20 15 (real 30) (real 30) DOT_radiusPixels"
    by (simp add: hitsBorder_def Let_def BORDER_insetPixels_def BORDER_thicknessPixels_def
        DOT_radiusPixels_def)
  have r: "js_round 20 = 20" "js_round 15 = 15" by (simp_all add: js_round_def)
  have col: "collidesWithTrailExcludingPoints ?m \<lparr>vx = 20, vy = 15\<rparr>
              DOT_radiusPixels [\<lparr>vx = 10, vy = 15\<rparr>]
              (max TRAIL_extraIgnoreMarginPixels GAPS_corridorExtraMarginPixels)"
    by code_simp
  have ig: "recentPositions ?p @ gapCorridor ?p @ gapCorridor (playerTwo ?s) = [\<lparr>vx = 10, vy = 15\<rparr>]"
    by (simp add: initialRound_def)
  have "resolvePlayer (1 / 8) (real 30) (real 30) ?m ?p (gapCorridor (playerTwo ?s))
          = (?m, ?p\<lparr>isAlive := False\<rparr>)"
    using al c nb r col ig by (intro resolvePlayer_collides) simp_all
  then have "\<not> isAlive (playerOne (movePlayerOne ?s (1 / 8) 30 30))"
    by (simp add: movePlayerOne_simps)
  with al c hi nb show ?thesis by simp
qed

section \<open>The whole tick\<close>

lemma applyTurn_simps [simp]:
  "scoreSeconds (applyTurn ks l r dt p) = scoreSeconds p"
  "positionPixels (applyTurn ks l r dt p) = positionPixels p"
  "isAlive (applyTurn ks l r dt p) = isAlive p"
  "recentPositions (applyTurn ks l r dt p) = recentPositions p"
  "gapCorridor (applyTurn ks l r dt p) = gapCorridor p"
  "gap (applyTurn ks l r dt p) = gap p"
  by (simp_all add: applyTurn_def Let_def)

lemma drawHeadWithGap_simps [simp]:
  "scoreSeconds (drawHeadWithGap p) = scoreSeconds p"
  "positionPixels (drawHeadWithGap p) = positionPixels p"
  "isAlive (drawHeadWithGap p) = isAlive p"
  "recentPositions (drawHeadWithGap p) = recentPositions p"
  "gapCorridor (drawHeadWithGap p) = gapCorridor p"
  "gap (drawHeadWithGap p) = gap p"
  "angleRadians (drawHeadWithGap p) = angleRadians p"
  by (simp_all add: drawHeadWithGap_def)

lemma rotatePlayers_simps [simp]:
  "playerOne (rotatePlayers s dt) = applyTurn (pressedKeys s) ''a'' ''d'' dt (playerOne s)"
  "playerTwo (rotatePlayers s dt) = applyTurn (pressedKeys s) ''j'' ''k'' dt (playerTwo s)"
  "trailMask (rotatePlayers s dt) = trailMask s"
  "isMoving (rotatePlayers s dt) = isMoving s"
  "hasRoundEnded (rotatePlayers s dt) = hasRoundEnded s"
  by (simp_all add: rotatePlayers_def)

lemma updateGaps_simps [simp]:
  "scoreSeconds (playerOne (updateGaps s dt u1 u2)) = scoreSeconds (playerOne s)"
  "positionPixels (playerOne (updateGaps s dt u1 u2)) = positionPixels (playerOne s)"
  "isAlive (playerOne (updateGaps s dt u1 u2)) = isAlive (playerOne s)"
  "recentPositions (playerOne (updateGaps s dt u1 u2)) = recentPositions (playerOne s)"
  "gapCorridor (playerOne (updateGaps s dt u1 u2)) = gapCorridor (playerOne s)"
  "angleRadians (playerOne (updateGaps s dt u1 u2)) = angleRadians (playerOne s)"
  "scoreSeconds (playerTwo (updateGaps s dt u1 u2)) = scoreSeconds (playerTwo s)"
  "positionPixels (playerTwo (updateGaps s dt u1 u2)) = positionPixels (playerTwo s)"
  "isAlive (playerTwo (updateGaps s dt u1 u2)) = isAlive (playerTwo s)"
  "recentPositions (playerTwo (updateGaps s dt u1 u2)) = recentPositions (playerTwo s)"
  "gapCorridor (playerTwo (updateGaps s dt u1 u2)) = gapCorridor (playerTwo s)"
  "angleRadians (playerTwo (updateGaps s dt u1 u2)) = angleRadians (playerTwo s)"
  "trailMask (updateGaps s dt u1 u2) = trailMask s"
  by (simp_all add: updateGaps_def)

lemma endRoundIfBothDead_simps [simp]:
  "playerOne (endRoundIfBothDead s) = playerOne s"
  "playerTwo (endRoundIfBothDead s) = playerTwo s"
  "trailMask (endRoundIfBothDead s) = trailMask s"
  by (simp_all add: endRoundIfBothDead_def)

lemma drawHeads_simps [simp]:
  "playerOne (drawHeads s) = drawHeadWithGap (playerOne s)"
  "playerTwo (drawHeads s) = drawHeadWithGap (playerTwo s)"
  "trailMask (drawHeads s) = trailMask s"
  "isMoving (drawHeads s) = isMoving s"
  "hasRoundEnded (drawHeads s) = hasRoundEnded s"
  by (simp_all add: drawHeads_def)

lemma resolvePlayer_score_mono:
  assumes "0 \<le> dt"
  shows "scoreSeconds me \<le> scoreSeconds (snd (resolvePlayer dt w h trail me oc))"
  using assms by (simp add: resolvePlayer_def Let_def)

lemma step_running:
  assumes "isMoving s" and "\<not> hasRoundEnded s"
  shows "step s nowMs w h u1 u2 =
           drawHeads (runningTick (rotatePlayers (s\<lparr>lastTimestampMs := nowMs\<rparr>)
                        ((nowMs - lastTimestampMs s) / 1000))
                      ((nowMs - lastTimestampMs s) / 1000) w h u1 u2)"
  using assms by (simp add: step_def Let_def)

lemma step_not_running:
  assumes "\<not> (isMoving s \<and> \<not> hasRoundEnded s)"
  shows "step s nowMs w h u1 u2 =
           drawHeads (rotatePlayers (s\<lparr>lastTimestampMs := nowMs\<rparr>)
                        ((nowMs - lastTimestampMs s) / 1000))"
  using assms by (auto simp add: step_def Let_def)

text \<open>
  Claim C9. In a tick with a non-negative delta time (\<open>nowMs\<close> not before the last
  timestamp) no player's score decreases; and a player who is not alive when the tick
  starts has the same score and the same position after it, and is still not alive.
\<close>

theorem score_monotone_and_frozen_when_dead:
  assumes "lastTimestampMs s \<le> nowMs" and "s' = step s nowMs w h u1 u2"
  shows "scoreSeconds (playerOne s) \<le> scoreSeconds (playerOne s')
       \<and> scoreSeconds (playerTwo s) \<le> scoreSeconds (playerTwo s')
       \<and> (\<not> isAlive (playerOne s) \<longrightarrow>
            scoreSeconds (playerOne s') = scoreSeconds (playerOne s)
            \<and> positionPixels (playerOne s') = positionPixels (playerOne s)
            \<and> \<not> isAlive (playerOne s'))
       \<and> (\<not> isAlive (playerTwo s) \<longrightarrow>
            scoreSeconds (playerTwo s') = scoreSeconds (playerTwo s)
            \<and> positionPixels (playerTwo s') = positionPixels (playerTwo s)
            \<and> \<not> isAlive (playerTwo s'))"
proof (cases "isMoving s \<and> \<not> hasRoundEnded s")
  case False
  then show ?thesis by (simp add: assms(2) step_not_running)
next
  case True
  define dt where "dt = (nowMs - lastTimestampMs s) / 1000"
  define r where "r = updateGaps (rotatePlayers (s\<lparr>lastTimestampMs := nowMs\<rparr>) dt) dt u1 u2"
  define t where "t = movePlayerOne r dt w h"
  have dt: "0 \<le> dt" using assms(1) by (simp add: dt_def)
  have s': "s' = drawHeads (endRoundIfBothDead (movePlayerTwo t dt w h))"
    using True by (simp add: assms(2) step_running runningTick_def dt_def r_def t_def)
  have r1: "scoreSeconds (playerOne r) = scoreSeconds (playerOne s)"
    "positionPixels (playerOne r) = positionPixels (playerOne s)"
    "isAlive (playerOne r) = isAlive (playerOne s)"
    and r2: "scoreSeconds (playerTwo r) = scoreSeconds (playerTwo s)"
    "positionPixels (playerTwo r) = positionPixels (playerTwo s)"
    "isAlive (playerTwo r) = isAlive (playerTwo s)"
    by (simp_all add: r_def)
  have p1: "playerOne s' = drawHeadWithGap
      (snd (resolvePlayer dt (real w) (real h) (trailMask r) (playerOne r) (gapCorridor (playerTwo r))))"
    by (simp add: s' t_def movePlayerOne_simps movePlayerTwo_simps)
  have p2: "playerTwo s' = drawHeadWithGap
      (snd (resolvePlayer dt (real w) (real h) (trailMask t) (playerTwo r) (gapCorridor (playerOne t))))"
    by (simp add: s' t_def movePlayerOne_simps movePlayerTwo_simps)
  have a: "scoreSeconds (playerOne s) \<le> scoreSeconds (playerOne s')"
    using resolvePlayer_score_mono [OF dt, of "playerOne r"] by (simp add: p1 r1)
  have b: "scoreSeconds (playerTwo s) \<le> scoreSeconds (playerTwo s')"
    using resolvePlayer_score_mono [OF dt, of "playerTwo r"] by (simp add: p2 r2)
  have c: "scoreSeconds (playerOne s') = scoreSeconds (playerOne s)
            \<and> positionPixels (playerOne s') = positionPixels (playerOne s)
            \<and> \<not> isAlive (playerOne s')" if "\<not> isAlive (playerOne s)"
    using that by (simp add: p1 resolvePlayer_dead r1)
  have d: "scoreSeconds (playerTwo s') = scoreSeconds (playerTwo s)
            \<and> positionPixels (playerTwo s') = positionPixels (playerTwo s)
            \<and> \<not> isAlive (playerTwo s')" if "\<not> isAlive (playerTwo s)"
    using that by (simp add: p2 resolvePlayer_dead r2)
  from a b c d show ?thesis by blast
qed

theorem score_monotone_and_frozen_when_dead_witness:
  "lastTimestampMs ((initialRound 0 0 0)
      \<lparr>isMoving := True, trailMask := createTrailMask 40 40,
       playerOne := (playerOne (initialRound 0 0 0))
         \<lparr>positionPixels := \<lparr>vx = 12, vy = 12\<rparr>, isAlive := False, scoreSeconds := 3\<rparr>,
       playerTwo := (playerTwo (initialRound 0 0 0))
         \<lparr>positionPixels := \<lparr>vx = 20, vy = 20\<rparr>, scoreSeconds := 5\<rparr>\<rparr>) \<le> 100
   \<and> scoreSeconds (playerOne (step ((initialRound 0 0 0)
      \<lparr>isMoving := True, trailMask := createTrailMask 40 40,
       playerOne := (playerOne (initialRound 0 0 0))
         \<lparr>positionPixels := \<lparr>vx = 12, vy = 12\<rparr>, isAlive := False, scoreSeconds := 3\<rparr>,
       playerTwo := (playerTwo (initialRound 0 0 0))
         \<lparr>positionPixels := \<lparr>vx = 20, vy = 20\<rparr>, scoreSeconds := 5\<rparr>\<rparr>) 100 40 40 0 0)) = 3
   \<and> positionPixels (playerOne (step ((initialRound 0 0 0)
      \<lparr>isMoving := True, trailMask := createTrailMask 40 40,
       playerOne := (playerOne (initialRound 0 0 0))
         \<lparr>positionPixels := \<lparr>vx = 12, vy = 12\<rparr>, isAlive := False, scoreSeconds := 3\<rparr>,
       playerTwo := (playerTwo (initialRound 0 0 0))
         \<lparr>positionPixels := \<lparr>vx = 20, vy = 20\<rparr>, scoreSeconds := 5\<rparr>\<rparr>) 100 40 40 0 0))
       = \<lparr>vx = 12, vy = 12\<rparr>
   \<and> 5 \<le> scoreSeconds (playerTwo (step ((initialRound 0 0 0)
      \<lparr>isMoving := True, trailMask := createTrailMask 40 40,
       playerOne := (playerOne (initialRound 0 0 0))
         \<lparr>positionPixels := \<lparr>vx = 12, vy = 12\<rparr>, isAlive := False, scoreSeconds := 3\<rparr>,
       playerTwo := (playerTwo (initialRound 0 0 0))
         \<lparr>positionPixels := \<lparr>vx = 20, vy = 20\<rparr>, scoreSeconds := 5\<rparr>\<rparr>) 100 40 40 0 0))"
proof -
  let ?s = "(initialRound 0 0 0)
      \<lparr>isMoving := True, trailMask := createTrailMask 40 40,
       playerOne := (playerOne (initialRound 0 0 0))
         \<lparr>positionPixels := \<lparr>vx = 12, vy = 12\<rparr>, isAlive := False, scoreSeconds := 3\<rparr>,
       playerTwo := (playerTwo (initialRound 0 0 0))
         \<lparr>positionPixels := \<lparr>vx = 20, vy = 20\<rparr>, scoreSeconds := 5\<rparr>\<rparr>"
  have l: "lastTimestampMs ?s \<le> 100" by (simp add: initialRound_def)
  have f: "\<not> isAlive (playerOne ?s)" "scoreSeconds (playerOne ?s) = 3"
    "positionPixels (playerOne ?s) = \<lparr>vx = 12, vy = 12\<rparr>" "scoreSeconds (playerTwo ?s) = 5"
    by simp_all
  from score_monotone_and_frozen_when_dead [OF l refl, of 40 40 0 0] f l
  show ?thesis by simp
qed

lemma last_in_keepLast: "0 < n \<Longrightarrow> a \<in> set (keepLast n (xs @ [a]))"
  by (simp add: keepLast_def)

lemma resolvePlayer_survivor_in_gap:
  assumes "isAlive me" and "isActive (gap me)"
    and "isAlive (snd (resolvePlayer dt w h trail me oc))"
    and "q = \<lparr>vx = real_of_int (js_round (vx (candidate dt me))),
              vy = real_of_int (js_round (vy (candidate dt me)))\<rparr>"
  shows "resolvePlayer dt w h trail me oc
           = (trail, (pushGapCorridor (me\<lparr>positionPixels := candidate dt me\<rparr>) q)
                       \<lparr>scoreSeconds := scoreSeconds me + dt\<rparr>)"
  using assms by (simp add: resolvePlayer_def Let_def split: if_splits)

text \<open>
  Claim C6. In a running tick the block of player one runs before the block of player
  two: with \<open>r\<close> the round after the rotation and the gap timers and \<open>t\<close> the round after
  player one's block, the tick ends as player two's block on \<open>t\<close>. When player two is
  alive and its candidate passes the border check, it stays alive exactly when the
  trail query finds no collision in the mask of \<open>t\<close>, excluding its own recent
  positions, its own gap corridor and player one's gap corridor as \<open>t\<close> holds it, which
  is the corridor the tick leaves to player one. When player one moved during its gap
  in this tick, that corridor ends with the point player one just pushed, so the point
  is in player two's exclusion set.
\<close>

theorem player_two_sees_player_one_corridor:
  assumes "isMoving s" and "\<not> hasRoundEnded s"
    and "dt = (nowMs - lastTimestampMs s) / 1000"
    and "r = updateGaps (rotatePlayers (s\<lparr>lastTimestampMs := nowMs\<rparr>) dt) dt u1 u2"
    and "t = movePlayerOne r dt w h"
    and "s' = step s nowMs w h u1 u2"
    and "q1 = \<lparr>vx = real_of_int (js_round (vx (candidate dt (playerOne r)))),
               vy = real_of_int (js_round (vy (candidate dt (playerOne r))))\<rparr>"
    and "q2 = \<lparr>vx = real_of_int (js_round (vx (candidate dt (playerTwo r)))),
               vy = real_of_int (js_round (vy (candidate dt (playerTwo r))))\<rparr>"
  shows "s' = drawHeads (endRoundIfBothDead (movePlayerTwo t dt w h))
       \<and> (isAlive (playerTwo s)
            \<and> \<not> hitsBorder (vx (candidate dt (playerTwo r))) (vy (candidate dt (playerTwo r)))
                  (real w) (real h) DOT_radiusPixels \<longrightarrow>
          (isAlive (playerTwo s') \<longleftrightarrow>
             \<not> collidesWithTrailExcludingPoints (trailMask t) q2 DOT_radiusPixels
                 (recentPositions (playerTwo s) @ gapCorridor (playerTwo s)
                    @ gapCorridor (playerOne t))
                 (max TRAIL_extraIgnoreMarginPixels GAPS_corridorExtraMarginPixels)))
       \<and> gapCorridor (playerOne s') = gapCorridor (playerOne t)
       \<and> (isAlive (playerOne s) \<and> isActive (gap (playerOne r)) \<and> isAlive (playerOne t) \<longrightarrow>
            gapCorridor (playerOne t)
              = keepLast GAPS_corridorMaxPoints (gapCorridor (playerOne s) @ [q1])
            \<and> q1 \<in> set (gapCorridor (playerOne t))
            \<and> trailMask t = trailMask s)"
proof (intro conjI impI)
  show s': "s' = drawHeads (endRoundIfBothDead (movePlayerTwo t dt w h))"
    using assms(1,2) by (simp add: assms(3-6) step_running runningTick_def)
  have p2: "playerTwo s' = drawHeadWithGap
      (snd (resolvePlayer dt (real w) (real h) (trailMask t) (playerTwo r) (gapCorridor (playerOne t))))"
    by (simp add: s' assms(5) movePlayerOne_simps movePlayerTwo_simps)
  have r2: "recentPositions (playerTwo r) = recentPositions (playerTwo s)"
    "gapCorridor (playerTwo r) = gapCorridor (playerTwo s)"
    "isAlive (playerTwo r) = isAlive (playerTwo s)"
    and r1: "gapCorridor (playerOne r) = gapCorridor (playerOne s)"
    "isAlive (playerOne r) = isAlive (playerOne s)"
    and rm: "trailMask r = trailMask s"
    by (simp_all add: assms(4))
  show "gapCorridor (playerOne s') = gapCorridor (playerOne t)"
    by (simp add: s' movePlayerTwo_simps)
  {
    assume h: "isAlive (playerTwo s)
            \<and> \<not> hitsBorder (vx (candidate dt (playerTwo r))) (vy (candidate dt (playerTwo r)))
                  (real w) (real h) DOT_radiusPixels"
    then have a: "isAlive (playerTwo r)" by (simp add: r2)
    from h have b: "\<not> hitsBorder (vx (candidate dt (playerTwo r))) (vy (candidate dt (playerTwo r)))
                  (real w) (real h) DOT_radiusPixels" by blast
    from resolvePlayer_alive_iff [OF a b, of "trailMask t" "gapCorridor (playerOne t)"]
    show "isAlive (playerTwo s') \<longleftrightarrow>
             \<not> collidesWithTrailExcludingPoints (trailMask t) q2 DOT_radiusPixels
                 (recentPositions (playerTwo s) @ gapCorridor (playerTwo s)
                    @ gapCorridor (playerOne t))
                 (max TRAIL_extraIgnoreMarginPixels GAPS_corridorExtraMarginPixels)"
      by (simp add: p2 r2 assms(8))
  }
  {
    assume h: "isAlive (playerOne s) \<and> isActive (gap (playerOne r)) \<and> isAlive (playerOne t)"
    then have a: "isAlive (playerOne r)" and g: "isActive (gap (playerOne r))"
      by (simp_all add: r1)
    from h have l: "isAlive (snd (resolvePlayer dt (real w) (real h) (trailMask r) (playerOne r)
                       (gapCorridor (playerTwo r))))"
      by (simp add: assms(5) movePlayerOne_simps)
    note e = resolvePlayer_survivor_in_gap [OF a g l assms(7)]
    from e show c: "gapCorridor (playerOne t)
              = keepLast GAPS_corridorMaxPoints (gapCorridor (playerOne s) @ [q1])"
      by (simp add: assms(5) movePlayerOne_simps pushGapCorridor_keepLast r1)
    show "q1 \<in> set (gapCorridor (playerOne t))"
      unfolding c by (rule last_in_keepLast) (simp add: GAPS_corridorMaxPoints_def)
    from e show "trailMask t = trailMask s"
      by (simp add: assms(5) movePlayerOne_simps rm)
  }
qed

theorem player_two_sees_player_one_corridor_witness:
  "isMoving ((initialRound 0 0 0)
      \<lparr>isMoving := True, trailMask := markVisitedCircle (createTrailMask 40 40) 20 20 2,
       playerOne := (playerOne (initialRound 0 0 0))
         \<lparr>positionPixels := \<lparr>vx = 20, vy = 20\<rparr>, recentPositions := [\<lparr>vx = 20, vy = 20\<rparr>],
          gap := \<lparr>isActive = True, timeUntilNextGap = 0, remainingGapTime = 3 / 10\<rparr>\<rparr>,
       playerTwo := (playerTwo (initialRound 0 0 0))
         \<lparr>angleRadians := pi, positionPixels := \<lparr>vx = 26, vy = 20\<rparr>,
          recentPositions := [\<lparr>vx = 26, vy = 20\<rparr>]\<rparr>\<rparr>)
   \<and> gapCorridor (playerOne (step ((initialRound 0 0 0)
      \<lparr>isMoving := True, trailMask := markVisitedCircle (createTrailMask 40 40) 20 20 2,
       playerOne := (playerOne (initialRound 0 0 0))
         \<lparr>positionPixels := \<lparr>vx = 20, vy = 20\<rparr>, recentPositions := [\<lparr>vx = 20, vy = 20\<rparr>],
          gap := \<lparr>isActive = True, timeUntilNextGap = 0, remainingGapTime = 3 / 10\<rparr>\<rparr>,
       playerTwo := (playerTwo (initialRound 0 0 0))
         \<lparr>angleRadians := pi, positionPixels := \<lparr>vx = 26, vy = 20\<rparr>,
          recentPositions := [\<lparr>vx = 26, vy = 20\<rparr>]\<rparr>\<rparr>) 25 40 40 0 0))
       = [\<lparr>vx = 22, vy = 20\<rparr>]
   \<and> isAlive (playerTwo (step ((initialRound 0 0 0)
      \<lparr>isMoving := True, trailMask := markVisitedCircle (createTrailMask 40 40) 20 20 2,
       playerOne := (playerOne (initialRound 0 0 0))
         \<lparr>positionPixels := \<lparr>vx = 20, vy = 20\<rparr>, recentPositions := [\<lparr>vx = 20, vy = 20\<rparr>],
          gap := \<lparr>isActive = True, timeUntilNextGap = 0, remainingGapTime = 3 / 10\<rparr>\<rparr>,
       playerTwo := (playerTwo (initialRound 0 0 0))
         \<lparr>angleRadians := pi, positionPixels := \<lparr>vx = 26, vy = 20\<rparr>,
          recentPositions := [\<lparr>vx = 26, vy = 20\<rparr>]\<rparr>\<rparr>) 25 40 40 0 0))
   \<and> collidesWithTrailExcludingPoints (markVisitedCircle (createTrailMask 40 40) 20 20 2)
        \<lparr>vx = 24, vy = 20\<rparr> DOT_radiusPixels [\<lparr>vx = 26, vy = 20\<rparr>]
        (max TRAIL_extraIgnoreMarginPixels GAPS_corridorExtraMarginPixels)"
proof -
  let ?m = "markVisitedCircle (createTrailMask 40 40) 20 20 2"
  let ?mg = "max TRAIL_extraIgnoreMarginPixels GAPS_corridorExtraMarginPixels"
  define s where "s = (initialRound 0 0 0)
      \<lparr>isMoving := True, trailMask := ?m,
       playerOne := (playerOne (initialRound 0 0 0))
         \<lparr>positionPixels := \<lparr>vx = 20, vy = 20\<rparr>, recentPositions := [\<lparr>vx = 20, vy = 20\<rparr>],
          gap := \<lparr>isActive = True, timeUntilNextGap = 0, remainingGapTime = 3 / 10\<rparr>\<rparr>,
       playerTwo := (playerTwo (initialRound 0 0 0))
         \<lparr>angleRadians := pi, positionPixels := \<lparr>vx = 26, vy = 20\<rparr>,
          recentPositions := [\<lparr>vx = 26, vy = 20\<rparr>]\<rparr>\<rparr>"
  define dt where "dt = (25 - lastTimestampMs s) / 1000"
  define r where "r = updateGaps (rotatePlayers (s\<lparr>lastTimestampMs := 25\<rparr>) dt) dt 0 0"
  define t where "t = movePlayerOne r dt 40 40"
  define s' where "s' = step s 25 40 40 0 0"
  define q1 where "q1 = \<lparr>vx = real_of_int (js_round (vx (candidate dt (playerOne r)))),
               vy = real_of_int (js_round (vy (candidate dt (playerOne r))))\<rparr>"
  define q2 where "q2 = \<lparr>vx = real_of_int (js_round (vx (candidate dt (playerTwo r)))),
               vy = real_of_int (js_round (vy (candidate dt (playerTwo r))))\<rparr>"
  have mv: "isMoving s" and ne: "\<not> hasRoundEnded s"
    by (simp_all add: s_def initialRound_def)
  have d: "dt = 1 / 40" by (simp add: dt_def s_def initialRound_def)
  have s1: "isAlive (playerOne s)" "gapCorridor (playerOne s) = []"
    "isAlive (playerTwo s)" "gapCorridor (playerTwo s) = []"
    "recentPositions (playerTwo s) = [\<lparr>vx = 26, vy = 20\<rparr>]" "trailMask s = ?m"
    by (simp_all add: s_def initialRound_def)
  have r1: "isAlive (playerOne r)" "isActive (gap (playerOne r))"
    "angleRadians (playerOne r) = 0" "positionPixels (playerOne r) = \<lparr>vx = 20, vy = 20\<rparr>"
    "recentPositions (playerOne r) = [\<lparr>vx = 20, vy = 20\<rparr>]" "gapCorridor (playerOne r) = []"
    "gapCorridor (playerTwo r) = []" "trailMask r = ?m"
    "angleRadians (playerTwo r) = pi" "positionPixels (playerTwo r) = \<lparr>vx = 26, vy = 20\<rparr>"
    by (simp_all add: r_def d s_def initialRound_def rotatePlayers_def updateGaps_def
        applyTurn_def updateGap_def GAPS_enabled_def Let_def)
  have c1: "candidate dt (playerOne r) = \<lparr>vx = 22, vy = 20\<rparr>"
    by (simp add: candidate_angle_zero r1 d)
  have c2: "candidate dt (playerTwo r) = \<lparr>vx = 24, vy = 20\<rparr>"
    by (simp add: candidate_def advance_def r1 d PHYSICS_forwardSpeedPixelsPerSecond_def)
  have q: "q1 = \<lparr>vx = 22, vy = 20\<rparr>" "q2 = \<lparr>vx = 24, vy = 20\<rparr>"
    by (simp_all add: q1_def q2_def c1 c2 js_round_def)
  have nb1: "\<not> hitsBorder (vx (candidate dt (playerOne r))) (vy (candidate dt (playerOne r)))
               (real 40) (real 40) DOT_radiusPixels"
    and nb2: "\<not> hitsBorder (vx (candidate dt (playerTwo r))) (vy (candidate dt (playerTwo r)))
               (real 40) (real 40) DOT_radiusPixels"
    by (simp_all add: c1 c2 hitsBorder_def Let_def BORDER_insetPixels_def
        BORDER_thicknessPixels_def DOT_radiusPixels_def)
  have k1: "\<not> collidesWithTrailExcludingPoints ?m \<lparr>vx = 22, vy = 20\<rparr> DOT_radiusPixels
              [\<lparr>vx = 20, vy = 20\<rparr>] ?mg"
    by code_simp
  have k2: "\<not> collidesWithTrailExcludingPoints ?m \<lparr>vx = 24, vy = 20\<rparr> DOT_radiusPixels
              [\<lparr>vx = 26, vy = 20\<rparr>, \<lparr>vx = 22, vy = 20\<rparr>] ?mg"
    by code_simp
  have k3: "collidesWithTrailExcludingPoints ?m \<lparr>vx = 24, vy = 20\<rparr> DOT_radiusPixels
              [\<lparr>vx = 26, vy = 20\<rparr>] ?mg"
    by code_simp
  from resolvePlayer_alive_iff [OF r1(1) nb1, of "trailMask r" "gapCorridor (playerTwo r)"] k1
  have a1: "isAlive (playerOne t)"
    by (simp add: t_def movePlayerOne_simps r1 c1 js_round_def)
  note th = player_two_sees_player_one_corridor [OF mv ne dt_def r_def t_def s'_def q1_def q2_def]
  from th s1(1) r1(2) a1
  have g: "gapCorridor (playerOne t)
             = keepLast GAPS_corridorMaxPoints (gapCorridor (playerOne s) @ [q1])"
    and m: "trailMask t = trailMask s"
    by blast+
  from g have g': "gapCorridor (playerOne t) = [\<lparr>vx = 22, vy = 20\<rparr>]"
    by (simp add: s1 q keepLast_def GAPS_corridorMaxPoints_def)
  from th have "gapCorridor (playerOne s') = gapCorridor (playerOne t)" by blast
  with g' have w1: "gapCorridor (playerOne s') = [\<lparr>vx = 22, vy = 20\<rparr>]" by simp
  from th s1(3) nb2
  have "isAlive (playerTwo s') \<longleftrightarrow>
          \<not> collidesWithTrailExcludingPoints (trailMask t) q2 DOT_radiusPixels
              (recentPositions (playerTwo s) @ gapCorridor (playerTwo s) @ gapCorridor (playerOne t))
              ?mg"
    by blast
  with k2 have w2: "isAlive (playerTwo s')"
    by (simp add: m s1 g' q)
  from mv w1 w2 k3 show ?thesis
    unfolding s'_def s_def by blast
qed

end
